theory Spec2Isabelle
  imports Main "HOL-Library.Sublist"
begin

section \<open>JavaScript values\<close>

text \<open>
  The values that flow through \<^verbatim>\<open>dc-fetch.js\<close>: request payloads, option objects,
  responses and errors. An object literal \<^verbatim>\<open>{k1: v1, ..., kn: vn}\<close> is the list of its
  property definitions in source order; a later definition of a key replaces an earlier one,
  so a property is read from the back of the list. Numbers are integers (only their
  truthiness is ever inspected). A \<open>JToken n\<close> is the axios \<^verbatim>\<open>CancelToken\<close> object
  with identity \<open>n\<close>. Arrays and functions are not among these values.
\<close>

datatype jsval =
    JUndefined
  | JNull
  | JBool bool
  | JNum int
  | JStr string
  | JObj "(string \<times> jsval) list"
  | JToken nat

text \<open>What a \<^verbatim>\<open>throw\<close> carries: a \<^verbatim>\<open>TypeError\<close> raised by the language itself, or a
  value thrown (or passed to \<^verbatim>\<open>reject\<close>) by code.\<close>

datatype thrown = TypeError | Thrown jsval

fun truthy :: "jsval \<Rightarrow> bool" where
  "truthy JUndefined = False"
| "truthy JNull = False"
| "truthy (JBool b) = b"
| "truthy (JNum n) = (n \<noteq> 0)"
| "truthy (JStr s) = (s \<noteq> [])"
| "truthy (JObj kvs) = True"
| "truthy (JToken n) = True"

definition js_or :: "jsval \<Rightarrow> jsval \<Rightarrow> jsval" where
  "js_or a b = (if truthy a then a else b)"

definition js_and :: "jsval \<Rightarrow> jsval \<Rightarrow> jsval" where
  "js_and a b = (if truthy a then b else a)"

definition own_prop :: "(string \<times> 'a) list \<Rightarrow> string \<Rightarrow> 'a option" where
  "own_prop kvs k = map_of (rev kvs) k"

text \<open>
  \<open>get_prop v k\<close> is the property read \<^verbatim>\<open>v.k\<close> for the fixed names the source reads
  (\<^verbatim>\<open>successTip\<close>, \<^verbatim>\<open>errorTip\<close>, \<^verbatim>\<open>headers\<close>, \<^verbatim>\<open>Content-Type\<close>, \<^verbatim>\<open>message\<close>,
  \<^verbatim>\<open>canceled\<close>, \<^verbatim>\<open>data\<close>, and the keys of a request configuration), none of which a
  built-in prototype defines; it is used on values that are not \<^verbatim>\<open>undefined\<close> or
  \<^verbatim>\<open>null\<close>, where the read cannot throw.
\<close>

fun get_prop :: "jsval \<Rightarrow> string \<Rightarrow> jsval" where
  "get_prop (JObj kvs) k = (case own_prop kvs k of Some v \<Rightarrow> v | None \<Rightarrow> JUndefined)"
| "get_prop v k = JUndefined"

text \<open>
  A read with a computed key, \<^verbatim>\<open>obj[key]\<close>, on a plain object also finds what
  \<^verbatim>\<open>Object.prototype\<close> provides: for those names the result is an inherited built-in
  (a function, or the prototype itself for \<^verbatim>\<open>__proto__\<close>), which is truthy and has
  neither a \<^verbatim>\<open>cancel\<close> nor a \<^verbatim>\<open>Content-Type\<close> property.
\<close>

definition object_prototype_names :: "string list" where
  "object_prototype_names =
     [''constructor'', ''__defineGetter__'', ''__defineSetter__'', ''hasOwnProperty'',
      ''__lookupGetter__'', ''__lookupSetter__'', ''isPrototypeOf'', ''propertyIsEnumerable'',
      ''toString'', ''valueOf'', ''__proto__'', ''toLocaleString'']"

datatype 'a member = Own 'a | Inherited | Missing

definition member_of :: "(string \<times> 'a) list \<Rightarrow> string \<Rightarrow> 'a member" where
  "member_of kvs k =
     (case own_prop kvs k of
        Some v \<Rightarrow> Own v
      | None \<Rightarrow> if k \<in> set object_prototype_names then Inherited else Missing)"

text \<open>\<open>indexOf_found s pat\<close> is \<^verbatim>\<open>s.indexOf(pat) > -1\<close> on strings.\<close>

fun indexOf_found :: "string \<Rightarrow> string \<Rightarrow> bool" where
  "indexOf_found [] pat = (pat = [])"
| "indexOf_found (c # cs) pat = (take (length pat) (c # cs) = pat \<or> indexOf_found cs pat)"

definition form_urlencoded :: string where
  "form_urlencoded = ''application/x-www-form-urlencoded''"

text \<open>\<^verbatim>\<open>v.indexOf('application/x-www-form-urlencoded') > -1\<close>: a value that is not a
  string has no callable \<^verbatim>\<open>indexOf\<close>, and the call throws.\<close>

fun indexOf_form :: "jsval \<Rightarrow> thrown + bool" where
  "indexOf_form (JStr s) = Inr (indexOf_found s form_urlencoded)"
| "indexOf_form v = Inl TypeError"

section \<open>The axios side: instances, defaults, and what is observed of them\<close>

text \<open>
  \<^verbatim>\<open>instance.defaults\<close> of an axios instance, with the fields this code touches.
  \<open>headers\<close> maps a method name to that method's header object.
\<close>

record axios_defaults =
  timeout :: jsval
  headers :: "(string \<times> (string \<times> jsval) list) list"
  baseURL :: jsval
  withCredentials :: jsval

text \<open>An axios instance holds a reference to its defaults object.\<close>

record axios_instance =
  inst_defaults :: nat

text \<open>
  The promise \<^verbatim>\<open>fetch\<close> returns. \<open>promise\<close> is its identity; \<open>cancel_target\<close> is the
  token whose canceller the closure variable \<^verbatim>\<open>cancel\<close> holds; \<open>successTip\<close> and
  \<open>errorTip\<close> are the closure variables the two callbacks of \<^verbatim>\<open>then\<close> read.
\<close>

record handle =
  promise :: nat
  cancel_target :: nat
  successTip :: jsval
  errorTip :: jsval

text \<open>Calls that leave this code, in the order they are made.\<close>

datatype event =
    Request axios_instance jsval
  | Cancel nat jsval
  | ShowSuccessTip jsval jsval
  | ShowErrorTip jsval jsval
  | Resolve nat jsval
  | Reject nat thrown

text \<open>
  The store: the defaults objects by address, the next unused identity (for defaults
  objects, promises and cancel tokens), and the calls made so far.
\<close>

record world =
  heap :: "nat \<Rightarrow> axios_defaults"
  fresh :: nat
  log :: "event list"

text \<open>
  \<^verbatim>\<open>axios.create()\<close> is library code, not part of this repository. What is taken from
  it: every call gives a new instance with a defaults object of its own, initialised
  from the library's defaults \<open>lib\<close>. What is left out: in some versions of the library
  the nested \<^verbatim>\<open>headers\<close> object is shared by all instances, so that a write to one
  instance's headers shows in the others. Here \<open>headers\<close> is a value inside each
  defaults object, and no statement below says that the headers of the two instances
  can be changed independently of each other.
\<close>

definition axios_create :: "axios_defaults \<Rightarrow> world \<Rightarrow> axios_instance \<times> world" where
  "axios_create lib w =
     (\<lparr>inst_defaults = fresh w\<rparr>,
      w\<lparr>heap := (heap w)(fresh w := lib), fresh := fresh w + 1\<rparr>)"

section \<open>class DcFetch\<close>

type_synonym hook = "jsval \<Rightarrow> jsval \<Rightarrow> thrown option"
type_synonym mock_pred = "string \<Rightarrow> jsval \<Rightarrow> string \<Rightarrow> jsval \<Rightarrow> thrown + jsval"

text \<open>
  The fields of a \<^verbatim>\<open>DcFetch\<close> object; \<open>real_instance\<close> is \<^verbatim>\<open>this.instance\<close>. The
  three callbacks are supplied by the user: a hook returns \<open>None\<close> when it returns
  normally (its value is ignored) and \<open>Some e\<close> when it throws \<open>e\<close>; \<open>isMock\<close> returns
  \<open>Inr v\<close> or throws.
\<close>

record DcFetch =
  real_instance :: axios_instance
  mockInstance :: axios_instance
  defaults :: nat
  mockDefaults :: nat
  onShowSuccessTip :: hook
  onShowErrorTip :: hook
  isMock :: mock_pred
  singleGets :: "(string \<times> handle) list"

text \<open>\<^verbatim>\<open>obj.headers.<m>['Content-Type'] = v\<close>\<close>

definition set_content_type ::
  "string \<Rightarrow> jsval \<Rightarrow> (string \<times> (string \<times> jsval) list) list
     \<Rightarrow> thrown + (string \<times> (string \<times> jsval) list) list" where
  "set_content_type m v hs =
     (case own_prop hs m of
        None \<Rightarrow> Inl TypeError
      | Some h \<Rightarrow> Inr (hs @ [(m, h @ [(''Content-Type'', v)])]))"

definition setDefaultOption :: "axios_instance \<Rightarrow> world \<Rightarrow> thrown option \<times> world" where
  "setDefaultOption inst w =
     (let a = inst_defaults inst;
          w1 = w\<lparr>heap := (heap w)(a := (heap w a)\<lparr>timeout := JNum 10000\<rparr>)\<rparr>
      in case set_content_type ''post'' (JStr ''application/json'') (headers (heap w1 a)) of
           Inl e \<Rightarrow> (Some e, w1)
         | Inr hs1 \<Rightarrow>
             (let w2 = w1\<lparr>heap := (heap w1)(a := (heap w1 a)\<lparr>headers := hs1\<rparr>)\<rparr>
              in case set_content_type ''put'' (JStr ''application/json'') (headers (heap w2 a)) of
                   Inl e \<Rightarrow> (Some e, w2)
                 | Inr hs2 \<Rightarrow>
                     (None,
                      w2\<lparr>heap := (heap w2)(a := (heap w2 a)
                            \<lparr>headers := hs2, baseURL := JStr ''/'',
                             withCredentials := JBool True\<rparr>)\<rparr>)))"

definition default_hook :: hook where
  "default_hook = (\<lambda>x tip. None)"

definition default_isMock :: mock_pred where
  "default_isMock = (\<lambda>url d m opts. Inr (JBool False))"

text \<open>
  The constructor. Each of the three arguments is \<open>None\<close> when the caller left it out.
\<close>

definition DcFetch_constructor ::
  "axios_defaults \<Rightarrow> hook option \<Rightarrow> hook option \<Rightarrow> mock_pred option \<Rightarrow> world
     \<Rightarrow> (thrown + DcFetch) \<times> world" where
  "DcFetch_constructor lib okTip errTip mock w =
     (let (inst, w1) = axios_create lib w;
          (minst, w2) = axios_create lib w1
      in case setDefaultOption inst w2 of
           (Some e, w3) \<Rightarrow> (Inl e, w3)
         | (None, w3) \<Rightarrow>
             (case setDefaultOption minst w3 of
                (Some e, w4) \<Rightarrow> (Inl e, w4)
              | (None, w4) \<Rightarrow>
                  (Inr \<lparr>real_instance = inst, mockInstance = minst,
                        defaults = inst_defaults inst, mockDefaults = inst_defaults minst,
                        onShowSuccessTip = (case okTip of None \<Rightarrow> default_hook | Some f \<Rightarrow> f),
                        onShowErrorTip = (case errTip of None \<Rightarrow> default_hook | Some f \<Rightarrow> f),
                        isMock = (case mock of None \<Rightarrow> default_isMock | Some f \<Rightarrow> f),
                        singleGets = []\<rparr>, w4)))"

section \<open>fetch\<close>

text \<open>
  The two default error tips of the source are Chinese string literals; they are given
  here by the bytes of their UTF-8 encoding.
\<close>

definition errorTip_get :: string where
  "errorTip_get = map char_of
     [232, 142, 183, 229, 143, 150, 230, 149, 176, 230, 141, 174, 229, 164, 177, 232, 180,
      165, 239, 188, 129 :: nat]"

definition errorTip_other :: string where
  "errorTip_other = map char_of
     [230, 147, 141, 228, 189, 156, 229, 164, 177, 232, 180, 165, 239, 188, 129 :: nat]"

text \<open>
  The arguments of \<^verbatim>\<open>fetch(url, data = {}, method = 'get', options = {})\<close>: \<open>url\<close> is a
  string; \<open>data\<close> is any value (\<open>JUndefined\<close> when left out); \<open>method\<close> is \<open>None\<close>
  when left out; \<open>options\<close> is a plain object, or \<open>None\<close> for \<^verbatim>\<open>undefined\<close> and
  \<^verbatim>\<open>null\<close>.
\<close>

definition arg_data :: "jsval \<Rightarrow> jsval" where
  "arg_data d = js_or (if d = JUndefined then JObj [] else d) (JObj [])"

definition arg_method :: "string option \<Rightarrow> string" where
  "arg_method m = (case m of None \<Rightarrow> ''get'' | Some s \<Rightarrow> s)"

definition arg_options :: "(string \<times> jsval) list option \<Rightarrow> (string \<times> jsval) list" where
  "arg_options opts = (case opts of None \<Rightarrow> [] | Some kvs \<Rightarrow> kvs)"

text \<open>The destructuring \<^verbatim>\<open>{successTip = false, errorTip = ...} = options\<close>.\<close>

definition option_successTip :: "(string \<times> jsval) list \<Rightarrow> jsval" where
  "option_successTip opts =
     (let v = get_prop (JObj opts) ''successTip'' in if v = JUndefined then JBool False else v)"

definition option_errorTip :: "string \<Rightarrow> (string \<times> jsval) list \<Rightarrow> jsval" where
  "option_errorTip method opts =
     (let v = get_prop (JObj opts) ''errorTip''
      in if v = JUndefined
         then JStr (if method = ''get'' then errorTip_get else errorTip_other)
         else v)"

text \<open>\<^verbatim>\<open>instance.defaults.headers[method]['Content-Type'] || ''\<close>\<close>

definition defaultsContentType ::
  "(string \<times> (string \<times> jsval) list) list \<Rightarrow> string \<Rightarrow> thrown + jsval" where
  "defaultsContentType hs method =
     (case member_of hs method of
        Own h \<Rightarrow> Inr (js_or (get_prop (JObj h) ''Content-Type'') (JStr []))
      | Inherited \<Rightarrow> Inr (JStr [])
      | Missing \<Rightarrow> Inl TypeError)"

text \<open>\<^verbatim>\<open>(options.headers && options.headers['Content-Type']) || ''\<close>\<close>

definition contentType :: "(string \<times> jsval) list \<Rightarrow> jsval" where
  "contentType opts =
     js_or (js_and (get_prop (JObj opts) ''headers'')
                   (get_prop (get_prop (JObj opts) ''headers'') ''Content-Type''))
           (JStr [])"

text \<open>The condition of the \<^verbatim>\<open>if\<close> that guards \<^verbatim>\<open>data = stringify(data)\<close>, with the
  short-circuit evaluation of \<^verbatim>\<open>&&\<close> and \<^verbatim>\<open>||\<close>.\<close>

definition wants_form :: "jsval \<Rightarrow> jsval \<Rightarrow> thrown + bool" where
  "wants_form dct ct =
     (if truthy dct
      then (case indexOf_form dct of
              Inl e \<Rightarrow> Inl e
            | Inr b \<Rightarrow> if b then Inr True else indexOf_form ct)
      else indexOf_form ct)"

text \<open>
  \<open>fetch\<close> up to the return of the promise. \<open>stringify\<close> is the \<^verbatim>\<open>qs\<close> library's
  function. The promise's executor runs at once: it creates the cancel token, builds
  the configuration (the caller's options spread last) and calls the selected instance.
  What the returned axios promise later does is the subject of \<open>settle\<close>.
\<close>

definition fetch ::
  "(jsval \<Rightarrow> string) \<Rightarrow> DcFetch \<Rightarrow> world \<Rightarrow> string \<Rightarrow> jsval \<Rightarrow> string option
     \<Rightarrow> (string \<times> jsval) list option \<Rightarrow> (thrown + handle) \<times> world" where
  "fetch stringify this w url data0 method0 options0 =
     (let data1 = arg_data data0;
          method = arg_method method0;
          options = arg_options options0;
          isGet = (method = ''get'')
      in case isMock this url data1 method (JObj options) of
           Inl e \<Rightarrow> (Inl e, w)
         | Inr mock \<Rightarrow>
             (let inst = (if truthy mock then mockInstance this else real_instance this)
              in case defaultsContentType (headers (heap w (inst_defaults inst))) method of
                   Inl e \<Rightarrow> (Inl e, w)
                 | Inr dct \<Rightarrow>
                     (case wants_form dct (contentType options) of
                        Inl e \<Rightarrow> (Inl e, w)
                      | Inr form \<Rightarrow>
                          (let data2 = (if form then JStr (stringify data1) else data1);
                               params = (if isGet then data2 else JObj []);
                               data3 = (if isGet then JObj [] else data2);
                               p = fresh w;
                               t = fresh w + 1;
                               config = JObj ([(''method'', JStr method), (''url'', JStr url),
                                               (''data'', data3), (''params'', params),
                                               (''cancelToken'', JToken t)] @ options)
                           in (Inr \<lparr>promise = p, cancel_target = t,
                                     successTip = option_successTip options,
                                     errorTip = option_errorTip method options\<rparr>,
                               w\<lparr>fresh := fresh w + 2,
                                 log := log w @ [Request inst config]\<rparr>)))))"

text \<open>\<^verbatim>\<open>fetchPromise.cancel()\<close>: calls the canceller with \<^verbatim>\<open>{canceled: true}\<close>.\<close>

definition canceled_message :: jsval where
  "canceled_message = JObj [(''canceled'', JBool True)]"

definition handle_cancel :: "handle \<Rightarrow> world \<Rightarrow> world" where
  "handle_cancel h w = w\<lparr>log := log w @ [Cancel (cancel_target h) canceled_message]\<rparr>"

text \<open>
  The promise returned by the instance settles at most once. \<open>settle\<close> is what the
  callbacks given to \<^verbatim>\<open>then\<close> and \<^verbatim>\<open>catch\<close> do at that moment, for the request
  whose handle is \<open>h\<close>. A throw inside the first callback (by the hook, or by reading
  \<^verbatim>\<open>response.data\<close> of \<^verbatim>\<open>undefined\<close> or \<^verbatim>\<open>null\<close>) or inside the second one (by the
  hook) reaches the \<^verbatim>\<open>catch\<close> callback, which rejects.
\<close>

datatype outcome = Fulfilled jsval | Failed jsval

definition isCanceled :: "jsval \<Rightarrow> bool" where
  "isCanceled err =
     truthy (js_and (js_and err (get_prop err ''message''))
                    (get_prop (get_prop err ''message'') ''canceled''))"

fun settle :: "DcFetch \<Rightarrow> handle \<Rightarrow> outcome \<Rightarrow> world \<Rightarrow> world" where
  "settle this h (Fulfilled response) w =
     (case onShowSuccessTip this response (successTip h) of
        Some e \<Rightarrow>
          w\<lparr>log := log w @ [ShowSuccessTip response (successTip h), Reject (promise h) e]\<rparr>
      | None \<Rightarrow>
          if response = JUndefined \<or> response = JNull
          then w\<lparr>log := log w @ [ShowSuccessTip response (successTip h),
                                  Reject (promise h) TypeError]\<rparr>
          else w\<lparr>log := log w @ [ShowSuccessTip response (successTip h),
                                  Resolve (promise h) (get_prop response ''data'')]\<rparr>)"
| "settle this h (Failed err) w =
     (if isCanceled err then w
      else (case onShowErrorTip this err (errorTip h) of
              Some e \<Rightarrow>
                w\<lparr>log := log w @ [ShowErrorTip err (errorTip h), Reject (promise h) e]\<rparr>
            | None \<Rightarrow>
                w\<lparr>log := log w @ [ShowErrorTip err (errorTip h),
                                  Reject (promise h) (Thrown err)]\<rparr>))"

section \<open>The request methods\<close>

definition get ::
  "(jsval \<Rightarrow> string) \<Rightarrow> DcFetch \<Rightarrow> world \<Rightarrow> string \<Rightarrow> jsval
     \<Rightarrow> (string \<times> jsval) list option \<Rightarrow> (thrown + handle) \<times> world" where
  "get stringify this w url params options = fetch stringify this w url params (Some ''get'') options"

definition post ::
  "(jsval \<Rightarrow> string) \<Rightarrow> DcFetch \<Rightarrow> world \<Rightarrow> string \<Rightarrow> jsval
     \<Rightarrow> (string \<times> jsval) list option \<Rightarrow> (thrown + handle) \<times> world" where
  "post stringify this w url data options = fetch stringify this w url data (Some ''post'') options"

definition put ::
  "(jsval \<Rightarrow> string) \<Rightarrow> DcFetch \<Rightarrow> world \<Rightarrow> string \<Rightarrow> jsval
     \<Rightarrow> (string \<times> jsval) list option \<Rightarrow> (thrown + handle) \<times> world" where
  "put stringify this w url data options = fetch stringify this w url data (Some ''put'') options"

definition patch ::
  "(jsval \<Rightarrow> string) \<Rightarrow> DcFetch \<Rightarrow> world \<Rightarrow> string \<Rightarrow> jsval
     \<Rightarrow> (string \<times> jsval) list option \<Rightarrow> (thrown + handle) \<times> world" where
  "patch stringify this w url data options = fetch stringify this w url data (Some ''patch'') options"

definition del ::
  "(jsval \<Rightarrow> string) \<Rightarrow> DcFetch \<Rightarrow> world \<Rightarrow> string \<Rightarrow> jsval
     \<Rightarrow> (string \<times> jsval) list option \<Rightarrow> (thrown + handle) \<times> world" where
  "del stringify this w url data options = fetch stringify this w url data (Some ''delete'') options"

text \<open>
  \<open>singleGet\<close> also writes \<^verbatim>\<open>this.singleGets\<close>, so it returns the object as well.
  \<^verbatim>\<open>this.singleGets[url]\<close> is a read with a computed key on a plain object: for a name
  of \<^verbatim>\<open>Object.prototype\<close> that the map does not hold itself, \<^verbatim>\<open>oldFetch\<close> is the
  inherited built-in, the test \<^verbatim>\<open>if (oldFetch)\<close> passes, and \<^verbatim>\<open>oldFetch.cancel()\<close>
  throws, \<^verbatim>\<open>cancel\<close> being \<^verbatim>\<open>undefined\<close> there.
\<close>

definition singleGet ::
  "(jsval \<Rightarrow> string) \<Rightarrow> DcFetch \<Rightarrow> world \<Rightarrow> string \<Rightarrow> jsval
     \<Rightarrow> (string \<times> jsval) list option \<Rightarrow> (thrown + handle) \<times> DcFetch \<times> world" where
  "singleGet stringify this w url params options =
     (case member_of (singleGets this) url of
        Inherited \<Rightarrow> (Inl TypeError, this, w)
      | old \<Rightarrow>
          (let w1 = (case old of Own oldFetch \<Rightarrow> handle_cancel oldFetch w | _ \<Rightarrow> w)
           in case fetch stringify this w1 url params (Some ''get'') options of
                (Inl e, w2) \<Rightarrow> (Inl e, this, w2)
              | (Inr singleFetch, w2) \<Rightarrow>
                  (Inr singleFetch,
                   this\<lparr>singleGets := singleGets this @ [(url, singleFetch)]\<rparr>, w2)))"

text \<open>The methods the class body declares, in source order (the constructor aside).\<close>

definition DcFetch_methods :: "string list" where
  "DcFetch_methods =
     [''setDefaultOption'', ''fetch'', ''get'', ''post'', ''put'', ''patch'', ''del'',
      ''singleGet'']"

section \<open>createDcFetchHoc\<close>

text \<open>
  A prop of a component is either the object \<^verbatim>\<open>this._$dcFetch\<close> of the wrapper, given by
  the names of the functions it holds, or any other value. The function stored under a
  name \<open>m\<close> is the closure \<^verbatim>\<open>(...args) => { ... dcFetch[m](...args) ... }\<close>.
\<close>

datatype propval = Injected "string list" | Given jsval

record component =
  dcFetch_obj :: "string list"
  dcFetchTokens :: "handle list"
  props :: "(string \<times> propval) list"

definition methods :: "string list" where
  "methods = [''get'', ''post'', ''put'', ''patch'', ''del'', ''singleGet'']"

text \<open>\<^verbatim>\<open>({propName = 'dcFetch'} = {})\<close>\<close>

definition arg_propName :: "string option \<Rightarrow> string" where
  "arg_propName p = (case p of None \<Rightarrow> ''dcFetch'' | Some s \<Rightarrow> s)"

definition WithSubscription_constructor :: "(string \<times> propval) list \<Rightarrow> component" where
  "WithSubscription_constructor ps =
     \<lparr>dcFetch_obj = foldl (\<lambda>obj method. obj @ [method]) [] methods,
      dcFetchTokens = [],
      props = ps\<rparr>"

text \<open>
  \<^verbatim>\<open>dcFetch[method](...args)\<close> for the names the constructor's loop ranges over; the
  wrapper never calls it with another name.
\<close>

definition dcFetch_call ::
  "(jsval \<Rightarrow> string) \<Rightarrow> DcFetch \<Rightarrow> world \<Rightarrow> string \<Rightarrow> string \<Rightarrow> jsval
     \<Rightarrow> (string \<times> jsval) list option \<Rightarrow> (thrown + handle) \<times> DcFetch \<times> world" where
  "dcFetch_call stringify dcFetch w method url d options =
     (if method = ''get'' then
        (let (r, w') = get stringify dcFetch w url d options in (r, dcFetch, w'))
      else if method = ''post'' then
        (let (r, w') = post stringify dcFetch w url d options in (r, dcFetch, w'))
      else if method = ''put'' then
        (let (r, w') = put stringify dcFetch w url d options in (r, dcFetch, w'))
      else if method = ''patch'' then
        (let (r, w') = patch stringify dcFetch w url d options in (r, dcFetch, w'))
      else if method = ''del'' then
        (let (r, w') = del stringify dcFetch w url d options in (r, dcFetch, w'))
      else if method = ''singleGet'' then
        singleGet stringify dcFetch w url d options
      else (Inl TypeError, dcFetch, w))"

text \<open>A call of \<^verbatim>\<open>this._$dcFetch[method](url, d, options)\<close> by the wrapped component.\<close>

definition injected_call ::
  "(jsval \<Rightarrow> string) \<Rightarrow> component \<Rightarrow> DcFetch \<Rightarrow> world \<Rightarrow> string \<Rightarrow> string \<Rightarrow> jsval
     \<Rightarrow> (string \<times> jsval) list option
     \<Rightarrow> (thrown + handle) \<times> component \<times> DcFetch \<times> world" where
  "injected_call stringify c dcFetch w method url d options =
     (if method \<in> set (dcFetch_obj c)
      then (case dcFetch_call stringify dcFetch w method url d options of
              (Inl e, dcFetch', w') \<Rightarrow> (Inl e, c, dcFetch', w')
            | (Inr dcFetchToken, dcFetch', w') \<Rightarrow>
                (Inr dcFetchToken,
                 c\<lparr>dcFetchTokens := dcFetchTokens c @ [dcFetchToken]\<rparr>, dcFetch', w'))
      else (Inl TypeError, c, dcFetch, w))"

definition componentWillUnmount :: "component \<Rightarrow> world \<Rightarrow> world" where
  "componentWillUnmount c w = foldl (\<lambda>w' item. handle_cancel item w') w (dcFetchTokens c)"

text \<open>\<open>render\<close> gives the props the wrapped component receives:
  \<^verbatim>\<open>{...injectProps, ...this.props}\<close>.\<close>

definition render :: "string \<Rightarrow> component \<Rightarrow> (string \<times> propval) list" where
  "render propName c = [(propName, Injected (dcFetch_obj c))] @ props c"

section \<open>Example data\<close>

text \<open>The defaults axios ships with, as far as this code reads them.\<close>

definition axios_library_defaults :: axios_defaults where
  "axios_library_defaults =
     \<lparr>timeout = JNum 0,
      headers = [(''common'', [(''Accept'', JStr ''application/json, text/plain, */*'')]),
                 (''delete'', []), (''get'', []), (''head'', []),
                 (''post'', [(''Content-Type'', JStr ''application/x-www-form-urlencoded'')]),
                 (''put'', [(''Content-Type'', JStr ''application/x-www-form-urlencoded'')]),
                 (''patch'', [(''Content-Type'', JStr ''application/x-www-form-urlencoded'')])],
      baseURL = JUndefined,
      withCredentials = JUndefined\<rparr>"

definition world0 :: world where
  "world0 = \<lparr>heap = (\<lambda>a. axios_library_defaults), fresh = 0, log = []\<rparr>"

text \<open>A stand-in for \<^verbatim>\<open>qs.stringify\<close> in examples.\<close>

definition stringify0 :: "jsval \<Rightarrow> string" where
  "stringify0 v = ''a=1''"

text \<open>What \<open>setDefaultOption\<close> makes of the library's defaults.\<close>

definition json_headers :: "(string \<times> (string \<times> jsval) list) list" where
  "json_headers =
     headers axios_library_defaults @
     [(''post'', [(''Content-Type'', JStr ''application/x-www-form-urlencoded''),
                  (''Content-Type'', JStr ''application/json'')]),
      (''put'', [(''Content-Type'', JStr ''application/x-www-form-urlencoded''),
                 (''Content-Type'', JStr ''application/json'')])]"

definition configured_defaults :: axios_defaults where
  "configured_defaults =
     \<lparr>timeout = JNum 10000, headers = json_headers, baseURL = JStr ''/'',
      withCredentials = JBool True\<rparr>"

text \<open>The object and the store after \<^verbatim>\<open>new DcFetch()\<close> in \<open>world0\<close>.\<close>

definition world1 :: world where
  "world1 = \<lparr>heap = (\<lambda>a. if a < 2 then configured_defaults else axios_library_defaults),
             fresh = 2, log = []\<rparr>"

definition dcFetch0 :: DcFetch where
  "dcFetch0 =
     \<lparr>real_instance = \<lparr>inst_defaults = 0\<rparr>, mockInstance = \<lparr>inst_defaults = 1\<rparr>,
      defaults = 0, mockDefaults = 1,
      onShowSuccessTip = default_hook, onShowErrorTip = default_hook,
      isMock = default_isMock, singleGets = []\<rparr>"

text \<open>The handle and the store after \<^verbatim>\<open>dcFetch.get('/users', {a: 1})\<close>.\<close>

definition handle1 :: handle where
  "handle1 = \<lparr>promise = 2, cancel_target = 3, successTip = JBool False,
              errorTip = JStr errorTip_get\<rparr>"

definition world2 :: world where
  "world2 = world1\<lparr>fresh := 4,
     log := [Request \<lparr>inst_defaults = 0\<rparr>
               (JObj [(''method'', JStr ''get''), (''url'', JStr ''/users''),
                      (''data'', JObj []), (''params'', JObj [(''a'', JNum 1)]),
                      (''cancelToken'', JToken 3)])]\<rparr>"

text \<open>After that, \<^verbatim>\<open>dcFetch.patch('/users/7', {a: 1}, {cancelToken: t})\<close> with the token
  \<open>t\<close> of the first request.\<close>

definition handle2 :: handle where
  "handle2 = \<lparr>promise = 4, cancel_target = 5, successTip = JBool False,
              errorTip = JStr errorTip_other\<rparr>"

definition world3 :: world where
  "world3 = world2\<lparr>fresh := 6,
     log := log world2 @
       [Request \<lparr>inst_defaults = 0\<rparr>
          (JObj [(''method'', JStr ''patch''), (''url'', JStr ''/users/7''),
                 (''data'', JStr ''a=1''), (''params'', JObj []),
                 (''cancelToken'', JToken 5), (''cancelToken'', JToken 3)])]\<rparr>"

text \<open>In \<open>world1\<close>, \<^verbatim>\<open>dcFetch.post('/users', {a: 1}, {successTip: 'saved'})\<close>.\<close>

definition handle3 :: handle where
  "handle3 = \<lparr>promise = 2, cancel_target = 3, successTip = JStr ''saved'',
              errorTip = JStr errorTip_other\<rparr>"

definition world4 :: world where
  "world4 = world1\<lparr>fresh := 4,
     log := [Request \<lparr>inst_defaults = 0\<rparr>
               (JObj [(''method'', JStr ''post''), (''url'', JStr ''/users''),
                      (''data'', JObj [(''a'', JNum 1)]), (''params'', JObj []),
                      (''cancelToken'', JToken 3), (''successTip'', JStr ''saved'')])]\<rparr>"

text \<open>The error axios rejects with after \<^verbatim>\<open>cancel({canceled: true})\<close>, a response, an
  ordinary error, and an object whose success hook throws.\<close>

definition cancel_error :: jsval where
  "cancel_error = JObj [(''message'', canceled_message)]"

definition response0 :: jsval where
  "response0 = JObj [(''data'', JObj [(''id'', JNum 7)]), (''status'', JNum 200)]"

definition error0 :: jsval where
  "error0 = JObj [(''message'', JStr ''Network Error'')]"

definition throwing_hook :: hook where
  "throwing_hook = (\<lambda>x tip. Some (Thrown (JStr ''render failed'')))"

definition dcFetch1 :: DcFetch where
  "dcFetch1 = dcFetch0\<lparr>onShowSuccessTip := throwing_hook\<rparr>"

text \<open>In \<open>world1\<close>, \<^verbatim>\<open>dcFetch.del('/users/7')\<close>.\<close>

definition handle4 :: handle where
  "handle4 = \<lparr>promise = 2, cancel_target = 3, successTip = JBool False,
              errorTip = JStr errorTip_other\<rparr>"

definition world5 :: world where
  "world5 = world1\<lparr>fresh := 4,
     log := [Request \<lparr>inst_defaults = 0\<rparr>
               (JObj [(''method'', JStr ''delete''), (''url'', JStr ''/users/7''),
                      (''data'', JObj []), (''params'', JObj []),
                      (''cancelToken'', JToken 3)])]\<rparr>"

text \<open>A wrapper component, before and after its wrapped component has called
  \<^verbatim>\<open>this.props.dcFetch.get('/users', {a: 1})\<close>.\<close>

definition component0 :: component where
  "component0 = WithSubscription_constructor [(''title'', Given (JStr ''Users''))]"

definition component1 :: component where
  "component1 = component0\<lparr>dcFetchTokens := dcFetchTokens component0 @ [handle1]\<rparr>"

text \<open>An object built with an \<open>isMock\<close> of the kind the source's comment suggests (urls
  that start with \<^verbatim>\<open>/mock\<close>), and the store after its
  \<^verbatim>\<open>get('/mock/users', {a: 1})\<close>.\<close>

definition mock_by_url :: mock_pred where
  "mock_by_url = (\<lambda>url d m opts. Inr (JBool (take 5 url = ''/mock'')))"

definition dcFetch2 :: DcFetch where
  "dcFetch2 = dcFetch0\<lparr>isMock := mock_by_url\<rparr>"

definition world6 :: world where
  "world6 = world1\<lparr>fresh := 4,
     log := [Request \<lparr>inst_defaults = 1\<rparr>
               (JObj [(''method'', JStr ''get''), (''url'', JStr ''/mock/users''),
                      (''data'', JObj []), (''params'', JObj [(''a'', JNum 1)]),
                      (''cancelToken'', JToken 3)])]\<rparr>"

text \<open>In \<open>world1\<close>, \<^verbatim>\<open>dcFetch.fetch('/users/7', undefined, 'head')\<close>,
  \<^verbatim>\<open>dcFetch.put('/users/7', {a: 1})\<close> and \<^verbatim>\<open>dcFetch.patch('/users/7', {a: 1})\<close>; the
  object after \<^verbatim>\<open>dcFetch.singleGet('/users', {a: 1})\<close>.\<close>

definition world7 :: world where
  "world7 = world1\<lparr>fresh := 4,
     log := [Request \<lparr>inst_defaults = 0\<rparr>
               (JObj [(''method'', JStr ''head''), (''url'', JStr ''/users/7''),
                      (''data'', JObj []), (''params'', JObj []),
                      (''cancelToken'', JToken 3)])]\<rparr>"

definition world8 :: world where
  "world8 = world1\<lparr>fresh := 4,
     log := [Request \<lparr>inst_defaults = 0\<rparr>
               (JObj [(''method'', JStr ''put''), (''url'', JStr ''/users/7''),
                      (''data'', JObj [(''a'', JNum 1)]), (''params'', JObj []),
                      (''cancelToken'', JToken 3)])]\<rparr>"

definition world9 :: world where
  "world9 = world1\<lparr>fresh := 4,
     log := [Request \<lparr>inst_defaults = 0\<rparr>
               (JObj [(''method'', JStr ''patch''), (''url'', JStr ''/users/7''),
                      (''data'', JStr ''a=1''), (''params'', JObj []),
                      (''cancelToken'', JToken 3)])]\<rparr>"

definition dcFetch3 :: DcFetch where
  "dcFetch3 = dcFetch0\<lparr>singleGets := singleGets dcFetch0 @ [(''/users'', handle1)]\<rparr>"

text \<open>A wrapper component whose own props hold the name \<^verbatim>\<open>dcFetch\<close>.\<close>

definition component2 :: component where
  "component2 = WithSubscription_constructor [(''dcFetch'', Given (JStr ''mine''))]"

section \<open>Notions of the specification\<close>

text \<open>A header value contains \<^verbatim>\<open>application/x-www-form-urlencoded\<close>.\<close>

definition contains_form :: "jsval \<Rightarrow> bool" where
  "contains_form v = (case v of JStr s \<Rightarrow> sublist form_urlencoded s | _ \<Rightarrow> False)"

text \<open>The default \<^verbatim>\<open>Content-Type\<close> header an instance's defaults hold for a method
  (\<open>JUndefined\<close> when they hold none).\<close>

definition default_content_type_header ::
  "(string \<times> (string \<times> jsval) list) list \<Rightarrow> string \<Rightarrow> jsval" where
  "default_content_type_header hs method =
     (case own_prop hs method of
        Some h \<Rightarrow> get_prop (JObj h) ''Content-Type''
      | None \<Rightarrow> JUndefined)"

text \<open>The per-call \<^verbatim>\<open>options.headers['Content-Type']\<close> (\<open>JUndefined\<close> when there is
  none).\<close>

definition option_content_type_header :: "(string \<times> jsval) list \<Rightarrow> jsval" where
  "option_content_type_header opts =
     get_prop (get_prop (JObj opts) ''headers'') ''Content-Type''"

text \<open>A value a caller can hold when the store is \<open>w\<close>: every cancel token in it at the
  top level was created before.\<close>

definition created_before :: "world \<Rightarrow> jsval \<Rightarrow> bool" where
  "created_before w v = (case v of JToken n \<Rightarrow> n < fresh w | _ \<Rightarrow> True)"

text \<open>A header value on which \<^verbatim>\<open>indexOf\<close> is either not called or can be called.\<close>

definition string_or_falsy :: "jsval \<Rightarrow> bool" where
  "string_or_falsy v = (case v of JStr s \<Rightarrow> True | _ \<Rightarrow> \<not> truthy v)"

section \<open>Properties\<close>

subsection \<open>Auxiliary facts\<close>

lemma take_is_pat: "take (length pat) s = pat \<longleftrightarrow> prefix pat s"
proof
  assume "take (length pat) s = pat"
  then have "s = pat @ drop (length pat) s"
    by (metis append_take_drop_id)
  then show "prefix pat s"
    unfolding prefix_def by blast
next
  assume "prefix pat s"
  then show "take (length pat) s = pat"
    by (auto simp: prefix_def)
qed

lemma indexOf_found_sublist: "indexOf_found s pat \<longleftrightarrow> sublist pat s"
proof (induction s)
  case Nil
  show ?case by simp
next
  case (Cons c cs)
  have "indexOf_found (c # cs) pat \<longleftrightarrow> prefix pat (c # cs) \<or> indexOf_found cs pat"
    using take_is_pat [of pat "c # cs"] by simp
  with Cons show ?case
    by (simp add: sublist_Cons_right)
qed

text \<open>What a call of \<open>fetch\<close> that returns has done.\<close>

lemma fetch_Inr:
  assumes "fetch sf this w url d m opts = (Inr h, w')"
  obtains mock dct form where
    "isMock this url (arg_data d) (arg_method m) (JObj (arg_options opts)) = Inr mock"
    "defaultsContentType
       (headers (heap w (inst_defaults
          (if truthy mock then mockInstance this else real_instance this))))
       (arg_method m) = Inr dct"
    "wants_form dct (contentType (arg_options opts)) = Inr form"
    "h = \<lparr>promise = fresh w, cancel_target = fresh w + 1,
          successTip = option_successTip (arg_options opts),
          errorTip = option_errorTip (arg_method m) (arg_options opts)\<rparr>"
    "w' = w\<lparr>fresh := fresh w + 2,
           log := log w @
             [Request (if truthy mock then mockInstance this else real_instance this)
                (JObj ([(''method'', JStr (arg_method m)), (''url'', JStr url),
                        (''data'', if arg_method m = ''get'' then JObj []
                                   else if form then JStr (sf (arg_data d)) else arg_data d),
                        (''params'', if arg_method m = ''get''
                                     then (if form then JStr (sf (arg_data d)) else arg_data d)
                                     else JObj []),
                        (''cancelToken'', JToken (fresh w + 1))] @ arg_options opts))]\<rparr>"
  using assms unfolding fetch_def Let_def
  by (auto split: sum.splits if_splits)

lemma setDefaultOption_library:
  "heap w a = axios_library_defaults \<Longrightarrow>
   setDefaultOption \<lparr>inst_defaults = a\<rparr> w =
     (None, w\<lparr>heap := (heap w)(a := configured_defaults)\<rparr>)"
  by (simp add: setDefaultOption_def set_content_type_def own_prop_def Let_def
      axios_library_defaults_def configured_defaults_def json_headers_def)

lemma constructor_example:
  "DcFetch_constructor axios_library_defaults None None None world0 = (Inr dcFetch0, world1)"
  by (simp add: DcFetch_constructor_def axios_create_def setDefaultOption_library
      world0_def world1_def dcFetch0_def fun_eq_iff)

lemma fetch_example:
  "fetch stringify0 dcFetch0 world1 ''/users'' (JObj [(''a'', JNum 1)]) None None
     = (Inr handle1, world2)"
  by (simp add: fetch_def arg_data_def arg_method_def arg_options_def js_or_def js_and_def
      dcFetch0_def world1_def world2_def handle1_def default_isMock_def
      defaultsContentType_def member_of_def own_prop_def contentType_def wants_form_def
      configured_defaults_def json_headers_def axios_library_defaults_def
      option_successTip_def option_errorTip_def form_urlencoded_def Let_def)


lemma constructor_Inr:
  assumes "DcFetch_constructor lib okTip errTip mock w = (Inr this, w')"
  obtains w3 where
    "this = \<lparr>real_instance = \<lparr>inst_defaults = fresh w\<rparr>,
             mockInstance = \<lparr>inst_defaults = fresh w + 1\<rparr>,
             defaults = fresh w, mockDefaults = fresh w + 1,
             onShowSuccessTip = (case okTip of None \<Rightarrow> default_hook | Some f \<Rightarrow> f),
             onShowErrorTip = (case errTip of None \<Rightarrow> default_hook | Some f \<Rightarrow> f),
             isMock = (case mock of None \<Rightarrow> default_isMock | Some f \<Rightarrow> f),
             singleGets = []\<rparr>"
    "setDefaultOption \<lparr>inst_defaults = fresh w\<rparr>
       (w\<lparr>heap := (heap w)(fresh w := lib, fresh w + 1 := lib), fresh := fresh w + 2\<rparr>)
       = (None, w3)"
    "setDefaultOption \<lparr>inst_defaults = fresh w + 1\<rparr> w3 = (None, w')"
  using assms unfolding DcFetch_constructor_def axios_create_def Let_def
  by (auto split: prod.splits option.splits)

lemma form_nonempty: "form_urlencoded \<noteq> []"
  by (simp add: form_urlencoded_def)

lemma indexOf_form_Inr: "indexOf_form v = Inr b \<Longrightarrow> \<exists>s. v = JStr s \<and> b = sublist form_urlencoded s"
  by (cases v) (auto simp: indexOf_found_sublist)

lemma falsy_contains: "\<not> truthy v \<Longrightarrow> \<not> contains_form v"
  by (cases v) (auto simp: contains_form_def form_nonempty)

lemma indexOf_form_js_or:
  assumes "indexOf_form (js_or v (JStr [])) = Inr b"
  shows "b = contains_form v"
proof (cases "truthy v")
  case True
  with assms show ?thesis
    by (auto simp: js_or_def contains_form_def dest: indexOf_form_Inr)
next
  case False
  with assms have "b = sublist form_urlencoded []"
    by (auto simp: js_or_def dest: indexOf_form_Inr)
  with False show ?thesis
    by (simp add: falsy_contains form_nonempty)
qed

lemma contentType_header:
  "indexOf_form (contentType opts) = Inr b \<Longrightarrow> b = contains_form (option_content_type_header opts)"
proof -
  assume a: "indexOf_form (contentType opts) = Inr b"
  show ?thesis
  proof (cases "truthy (get_prop (JObj opts) ''headers'')")
    case True
    with a show ?thesis
      by (simp add: contentType_def js_and_def option_content_type_header_def indexOf_form_js_or)
  next
    case False
    then have "get_prop (get_prop (JObj opts) ''headers'') ''Content-Type'' = JUndefined"
      by (cases "get_prop (JObj opts) ''headers''") auto
    moreover from False a have "b = sublist form_urlencoded []"
      by (auto simp: contentType_def js_and_def js_or_def dest: indexOf_form_Inr)
    ultimately show ?thesis
      by (simp add: option_content_type_header_def contains_form_def form_nonempty)
  qed
qed

lemma defaultsContentType_header:
  "defaultsContentType hs m = Inr dct \<Longrightarrow> dct = js_or (default_content_type_header hs m) (JStr [])"
  by (auto simp: defaultsContentType_def default_content_type_header_def member_of_def js_or_def
      split: option.splits if_splits)

lemma wants_form_contains:
  assumes "defaultsContentType hs m = Inr dct"
    and "wants_form dct (contentType opts) = Inr form"
  shows "form = (contains_form (default_content_type_header hs m) \<or>
                 contains_form (option_content_type_header opts))"
proof -
  let ?v = "default_content_type_header hs m"
  have dct: "dct = js_or ?v (JStr [])"
    using assms(1) by (rule defaultsContentType_header)
  show ?thesis
  proof (cases "truthy dct")
    case True
    then obtain b where b: "indexOf_form dct = Inr b"
      using assms(2) by (auto simp: wants_form_def split: sum.splits)
    then have bv: "b = contains_form ?v"
      using dct indexOf_form_js_or by simp
    show ?thesis
    proof (cases b)
      case True
      with b \<open>truthy dct\<close> assms(2) bv show ?thesis
        by (simp add: wants_form_def)
    next
      case False
      with b \<open>truthy dct\<close> assms(2) have "indexOf_form (contentType opts) = Inr form"
        by (simp add: wants_form_def)
      then have "form = contains_form (option_content_type_header opts)"
        by (rule contentType_header)
      with False bv show ?thesis by simp
    qed
  next
    case False
    with dct have "\<not> truthy ?v"
      by (auto simp: js_or_def split: if_splits)
    then have nv: "\<not> contains_form ?v" by (rule falsy_contains)
    from False assms(2) have "indexOf_form (contentType opts) = Inr form"
      by (simp add: wants_form_def)
    then have "form = contains_form (option_content_type_header opts)"
      by (rule contentType_header)
    with nv show ?thesis by simp
  qed
qed


lemma get_prop_append:
  "get_prop (JObj (xs @ ys)) k =
     (case own_prop ys k of Some v \<Rightarrow> v | None \<Rightarrow> get_prop (JObj xs) k)"
  by (simp add: own_prop_def map_add_def split: option.splits)

lemma fetch_example_patch:
  "fetch stringify0 dcFetch0 world2 ''/users/7'' (JObj [(''a'', JNum 1)]) (Some ''patch'')
     (Some [(''cancelToken'', JToken 3)]) = (Inr handle2, world3)"
  by (simp add: fetch_def arg_data_def arg_method_def arg_options_def js_or_def js_and_def
      dcFetch0_def world1_def world2_def world3_def handle2_def default_isMock_def
      defaultsContentType_def member_of_def own_prop_def contentType_def wants_form_def
      configured_defaults_def json_headers_def axios_library_defaults_def stringify0_def
      option_successTip_def option_errorTip_def form_urlencoded_def Let_def)

lemma fetch_example_post:
  "fetch stringify0 dcFetch0 world1 ''/users'' (JObj [(''a'', JNum 1)]) (Some ''post'')
     (Some [(''successTip'', JStr ''saved'')]) = (Inr handle3, world4)"
  by (simp add: fetch_def arg_data_def arg_method_def arg_options_def js_or_def js_and_def
      dcFetch0_def world1_def world4_def handle3_def default_isMock_def
      defaultsContentType_def member_of_def own_prop_def contentType_def wants_form_def
      configured_defaults_def json_headers_def axios_library_defaults_def stringify0_def
      option_successTip_def option_errorTip_def form_urlencoded_def Let_def)

lemma isCanceled_flag:
  "truthy (get_prop (get_prop err ''message'') ''canceled'') \<Longrightarrow> isCanceled err"
proof -
  assume t: "truthy (get_prop (get_prop err ''message'') ''canceled'')"
  have m: "truthy (get_prop err ''message'')"
    using t by (cases "get_prop err ''message''") auto
  have e: "truthy err"
    using m by (cases err) auto
  from t m e show ?thesis
    by (simp add: isCanceled_def js_and_def)
qed

lemma cancel_error_flag:
  "truthy (get_prop (get_prop cancel_error ''message'') ''canceled'')"
  by (simp add: cancel_error_def canceled_message_def own_prop_def)

lemma fetch_example_hooks:
  "fetch stringify0 dcFetch1 world1 ''/users'' (JObj [(''a'', JNum 1)]) None None
     = (Inr handle1, world2)"
  by (simp add: fetch_def arg_data_def arg_method_def arg_options_def js_or_def js_and_def
      dcFetch0_def dcFetch1_def world1_def world2_def handle1_def default_isMock_def
      defaultsContentType_def member_of_def own_prop_def contentType_def wants_form_def
      configured_defaults_def json_headers_def axios_library_defaults_def
      option_successTip_def option_errorTip_def form_urlencoded_def Let_def)

lemma del_example:
  "del stringify0 dcFetch0 world1 ''/users/7'' JUndefined None = (Inr handle4, world5)"
  by (simp add: del_def fetch_def arg_data_def arg_method_def arg_options_def js_or_def
      js_and_def dcFetch0_def world1_def world5_def handle4_def default_isMock_def
      defaultsContentType_def member_of_def own_prop_def contentType_def wants_form_def
      configured_defaults_def json_headers_def axios_library_defaults_def
      option_successTip_def option_errorTip_def form_urlencoded_def Let_def)

lemma fetch_method_field:
  assumes "fetch sf this w url d (Some name) opts = (Inr h, w')"
  shows "\<exists>inst built.
           log w' = log w @ [Request inst (JObj (built @ arg_options opts))] \<and>
           get_prop (JObj built) ''method'' = JStr name"
proof -
  from assms obtain mock dct form where
    w': "w' = w\<lparr>fresh := fresh w + 2,
           log := log w @
             [Request (if truthy mock then mockInstance this else real_instance this)
                (JObj ([(''method'', JStr (arg_method (Some name))), (''url'', JStr url),
                        (''data'', if arg_method (Some name) = ''get'' then JObj []
                                   else if form then JStr (sf (arg_data d)) else arg_data d),
                        (''params'', if arg_method (Some name) = ''get''
                                     then (if form then JStr (sf (arg_data d)) else arg_data d)
                                     else JObj []),
                        (''cancelToken'', JToken (fresh w + 1))] @ arg_options opts))]\<rparr>"
    by (rule fetch_Inr)
  let ?built = "[(''method'', JStr (arg_method (Some name))), (''url'', JStr url),
                        (''data'', if arg_method (Some name) = ''get'' then JObj []
                                   else if form then JStr (sf (arg_data d)) else arg_data d),
                        (''params'', if arg_method (Some name) = ''get''
                                     then (if form then JStr (sf (arg_data d)) else arg_data d)
                                     else JObj []),
                        (''cancelToken'', JToken (fresh w + 1))]"
  show ?thesis
  proof (intro exI conjI)
    show "log w' = log w @
        [Request (if truthy mock then mockInstance this else real_instance this)
           (JObj (?built @ arg_options opts))]"
      by (simp add: w')
    show "get_prop (JObj ?built) ''method'' = JStr name"
      by (simp add: own_prop_def arg_method_def)
  qed
qed

lemma singleGet_replaces:
  assumes "member_of (singleGets this) url \<noteq> Inherited"
    and "singleGet sf this w url params opts = (Inr h, this', w')"
  shows "fetch sf this
           (case own_prop (singleGets this) url of
              Some oldFetch \<Rightarrow> handle_cancel oldFetch w
            | None \<Rightarrow> w)
           url params (Some ''get'') opts = (Inr h, w') \<and>
         own_prop (singleGets this') url = Some h \<and>
         (\<forall>u. u \<noteq> url \<longrightarrow> own_prop (singleGets this') u = own_prop (singleGets this) u)"
  using assms
  by (auto simp: singleGet_def member_of_def own_prop_def Let_def
      split: option.splits if_splits prod.splits sum.splits member.splits)

lemma unmount_log:
  "log (foldl (\<lambda>w' item. handle_cancel item w') w hs) =
     log w @ map (\<lambda>item. Cancel (cancel_target item) canceled_message) hs"
  by (induction hs arbitrary: w) (simp_all add: handle_cancel_def)

lemma constructor_methods:
  "dcFetch_obj (WithSubscription_constructor ps)
     = [''get'', ''post'', ''put'', ''patch'', ''del'', ''singleGet'']"
  by (simp add: WithSubscription_constructor_def methods_def)

lemma get_example:
  "get stringify0 dcFetch0 world1 ''/users'' (JObj [(''a'', JNum 1)]) None
     = (Inr handle1, world2)"
  by (simp add: get_def fetch_def arg_data_def arg_method_def arg_options_def js_or_def
      js_and_def dcFetch0_def world1_def world2_def handle1_def default_isMock_def
      defaultsContentType_def member_of_def own_prop_def contentType_def wants_form_def
      configured_defaults_def json_headers_def axios_library_defaults_def
      option_successTip_def option_errorTip_def form_urlencoded_def Let_def)

lemma dcFetch_call_example:
  "dcFetch_call stringify0 dcFetch0 world1 ''get'' ''/users'' (JObj [(''a'', JNum 1)]) None
     = (Inr handle1, dcFetch0, world2)"
  by (simp add: dcFetch_call_def get_example)

text \<open>Inputs on which \<open>fetch\<close> returns.\<close>

lemma indexOf_form_string_or_falsy:
  "string_or_falsy v \<Longrightarrow> \<exists>b. indexOf_form (js_or v (JStr [])) = Inr b"
  by (cases v) (auto simp: string_or_falsy_def js_or_def)

lemma contentType_string_or_falsy:
  assumes "string_or_falsy (option_content_type_header opts)"
  shows "\<exists>b. indexOf_form (contentType opts) = Inr b"
proof (cases "truthy (get_prop (JObj opts) ''headers'')")
  case True
  then have "contentType opts = js_or (option_content_type_header opts) (JStr [])"
    by (simp add: contentType_def js_and_def option_content_type_header_def)
  with assms show ?thesis
    by (simp add: indexOf_form_string_or_falsy)
next
  case False
  then have "contentType opts = JStr []"
    by (simp add: contentType_def js_and_def js_or_def)
  then show ?thesis by simp
qed

lemma fetch_returns:
  assumes mock: "isMock this url (arg_data d) (arg_method m) (JObj (arg_options opts)) = Inr mock"
    and inst: "inst = (if truthy mock then mockInstance this else real_instance this)"
    and known: "member_of (headers (heap w (inst_defaults inst))) (arg_method m) \<noteq> Missing"
    and dflt: "string_or_falsy
                 (default_content_type_header (headers (heap w (inst_defaults inst)))
                    (arg_method m))"
    and opt: "string_or_falsy (option_content_type_header (arg_options opts))"
  shows "\<exists>h w'. fetch sf this w url d m opts = (Inr h, w')"
proof -
  let ?hs = "headers (heap w (inst_defaults inst))"
  from known have "\<exists>dct. defaultsContentType ?hs (arg_method m) = Inr dct"
    by (cases "member_of ?hs (arg_method m)") (simp_all add: defaultsContentType_def)
  then obtain dct where dct: "defaultsContentType ?hs (arg_method m) = Inr dct" ..
  then have "dct = js_or (default_content_type_header ?hs (arg_method m)) (JStr [])"
    by (rule defaultsContentType_header)
  with dflt obtain b where b: "indexOf_form dct = Inr b"
    using indexOf_form_string_or_falsy by blast
  from opt obtain c where c: "indexOf_form (contentType (arg_options opts)) = Inr c"
    using contentType_string_or_falsy by blast
  from b c have "\<exists>form. wants_form dct (contentType (arg_options opts)) = Inr form"
    by (auto simp: wants_form_def)
  then obtain form where form: "wants_form dct (contentType (arg_options opts)) = Inr form" ..
  from mock dct form inst show ?thesis
    by (simp add: fetch_def Let_def)
qed

lemma constructor_example_mock:
  "DcFetch_constructor axios_library_defaults None None (Some mock_by_url) world0
     = (Inr dcFetch2, world1)"
  by (simp add: DcFetch_constructor_def axios_create_def setDefaultOption_library
      world0_def world1_def dcFetch0_def dcFetch2_def fun_eq_iff)

lemma fetch_example_mock:
  "fetch stringify0 dcFetch2 world1 ''/mock/users'' (JObj [(''a'', JNum 1)]) None None
     = (Inr handle1, world6)"
  by (simp add: fetch_def arg_data_def arg_method_def arg_options_def js_or_def js_and_def
      dcFetch0_def dcFetch2_def mock_by_url_def world1_def world6_def handle1_def
      defaultsContentType_def member_of_def own_prop_def contentType_def wants_form_def
      configured_defaults_def json_headers_def axios_library_defaults_def
      option_successTip_def option_errorTip_def form_urlencoded_def Let_def)

lemma fetch_returns_through:
  assumes mock: "isMock this url (arg_data d) (arg_method m) (JObj (arg_options opts)) = Inr mock"
    and inst: "inst = (if truthy mock then mockInstance this else real_instance this)"
    and known: "member_of (headers (heap w (inst_defaults inst))) (arg_method m) \<noteq> Missing"
    and dflt: "string_or_falsy
                 (default_content_type_header (headers (heap w (inst_defaults inst)))
                    (arg_method m))"
    and opt: "string_or_falsy (option_content_type_header (arg_options opts))"
  shows "\<exists>h w' config. fetch sf this w url d m opts = (Inr h, w') \<and>
           log w' = log w @ [Request inst config]"
proof -
  from assms obtain h w' where r: "fetch sf this w url d m opts = (Inr h, w')"
    using fetch_returns [OF mock inst known dflt opt] by blast
  then obtain mock' dct form where
    mock': "isMock this url (arg_data d) (arg_method m) (JObj (arg_options opts)) = Inr mock'"
    and w': "w' = w\<lparr>fresh := fresh w + 2,
           log := log w @
             [Request (if truthy mock' then mockInstance this else real_instance this)
                (JObj ([(''method'', JStr (arg_method m)), (''url'', JStr url),
                        (''data'', if arg_method m = ''get'' then JObj []
                                   else if form then JStr (sf (arg_data d)) else arg_data d),
                        (''params'', if arg_method m = ''get''
                                     then (if form then JStr (sf (arg_data d)) else arg_data d)
                                     else JObj []),
                        (''cancelToken'', JToken (fresh w + 1))] @ arg_options opts))]\<rparr>"
    by (rule fetch_Inr)
  from mock mock' have "mock' = mock" by simp
  with w' inst have "\<exists>config. log w' = log w @ [Request inst config]"
    by simp
  with r show ?thesis by blast
qed

lemma fetch_Inr_through:
  assumes "fetch sf this w url d m opts = (Inr h, w')"
  shows "\<exists>mock config.
      isMock this url (arg_data d) (arg_method m) (JObj (arg_options opts)) = Inr mock \<and>
      log w' = log w @
        [Request (if truthy mock then mockInstance this else real_instance this) config]"
proof -
  from assms obtain mock dct form where
    mock: "isMock this url (arg_data d) (arg_method m) (JObj (arg_options opts)) = Inr mock"
    and w': "w' = w\<lparr>fresh := fresh w + 2,
           log := log w @
             [Request (if truthy mock then mockInstance this else real_instance this)
                (JObj ([(''method'', JStr (arg_method m)), (''url'', JStr url),
                        (''data'', if arg_method m = ''get'' then JObj []
                                   else if form then JStr (sf (arg_data d)) else arg_data d),
                        (''params'', if arg_method m = ''get''
                                     then (if form then JStr (sf (arg_data d)) else arg_data d)
                                     else JObj []),
                        (''cancelToken'', JToken (fresh w + 1))] @ arg_options opts))]\<rparr>"
    by (rule fetch_Inr)
  from mock w' show ?thesis by auto
qed

lemma constructor_isMock:
  assumes "DcFetch_constructor lib okTip errTip mk w0 = (Inr this, w1)"
  shows "real_instance this \<noteq> mockInstance this"
    and "isMock this = (case mk of None \<Rightarrow> default_isMock | Some f \<Rightarrow> f)"
proof -
  from assms obtain w3 where
    obj: "this = \<lparr>real_instance = \<lparr>inst_defaults = fresh w0\<rparr>,
             mockInstance = \<lparr>inst_defaults = fresh w0 + 1\<rparr>,
             defaults = fresh w0, mockDefaults = fresh w0 + 1,
             onShowSuccessTip = (case okTip of None \<Rightarrow> default_hook | Some f \<Rightarrow> f),
             onShowErrorTip = (case errTip of None \<Rightarrow> default_hook | Some f \<Rightarrow> f),
             isMock = (case mk of None \<Rightarrow> default_isMock | Some f \<Rightarrow> f),
             singleGets = []\<rparr>"
    by (rule constructor_Inr)
  show "real_instance this \<noteq> mockInstance this"
    by (simp add: obj)
  show "isMock this = (case mk of None \<Rightarrow> default_isMock | Some f \<Rightarrow> f)"
    by (simp add: obj)
qed

lemma fetch_example_head:
  "fetch stringify0 dcFetch0 world1 ''/users/7'' JUndefined (Some ''head'') None
     = (Inr handle4, world7)"
  by (simp add: fetch_def arg_data_def arg_method_def arg_options_def js_or_def
      js_and_def dcFetch0_def world1_def world7_def handle4_def default_isMock_def
      defaultsContentType_def member_of_def own_prop_def contentType_def wants_form_def
      configured_defaults_def json_headers_def axios_library_defaults_def
      option_successTip_def option_errorTip_def form_urlencoded_def Let_def)

lemma post_example:
  "post stringify0 dcFetch0 world1 ''/users'' (JObj [(''a'', JNum 1)])
     (Some [(''successTip'', JStr ''saved'')]) = (Inr handle3, world4)"
  by (simp add: post_def fetch_example_post)

lemma put_example:
  "put stringify0 dcFetch0 world1 ''/users/7'' (JObj [(''a'', JNum 1)]) None
     = (Inr handle4, world8)"
  by (simp add: put_def fetch_def arg_data_def arg_method_def arg_options_def js_or_def
      js_and_def dcFetch0_def world1_def world8_def handle4_def default_isMock_def
      defaultsContentType_def member_of_def own_prop_def contentType_def wants_form_def
      configured_defaults_def json_headers_def axios_library_defaults_def
      option_successTip_def option_errorTip_def form_urlencoded_def Let_def)

lemma patch_example:
  "patch stringify0 dcFetch0 world1 ''/users/7'' (JObj [(''a'', JNum 1)]) None
     = (Inr handle4, world9)"
  by (simp add: patch_def fetch_def arg_data_def arg_method_def arg_options_def js_or_def
      js_and_def dcFetch0_def world1_def world9_def handle4_def default_isMock_def
      defaultsContentType_def member_of_def own_prop_def contentType_def wants_form_def
      configured_defaults_def json_headers_def axios_library_defaults_def stringify0_def
      option_successTip_def option_errorTip_def form_urlencoded_def Let_def)

lemma singleGet_example:
  "singleGet stringify0 dcFetch0 world1 ''/users'' (JObj [(''a'', JNum 1)]) None
     = (Inr handle1, dcFetch3, world2)"
proof -
  have m: "member_of (singleGets dcFetch0) ''/users'' = Missing"
    by (simp add: member_of_def own_prop_def dcFetch0_def object_prototype_names_def)
  have f: "fetch stringify0 dcFetch0 world1 ''/users'' (JObj [(''a'', JNum 1)]) (Some ''get'') None
     = (Inr handle1, world2)"
    using get_example by (simp add: get_def)
  show ?thesis
    by (simp add: singleGet_def m f dcFetch3_def)
qed

lemma injected_call_Inr:
  assumes "method \<in> set (dcFetch_obj c)"
    and "dcFetch_call sf dcFetch w method url d opts = (Inr token, dcFetch', w')"
  shows "injected_call sf c dcFetch w method url d opts =
        (Inr token, c\<lparr>dcFetchTokens := dcFetchTokens c @ [token]\<rparr>, dcFetch', w')"
  using assms by (simp add: injected_call_def)

lemma injected_call_Inl:
  assumes "injected_call sf c dcFetch w method url d opts = (Inl e, c', dcFetch', w')"
  shows "c' = c"
  using assms
  by (auto simp: injected_call_def split: if_splits prod.splits sum.splits)

subsection \<open>The constructor\<close>



subsection \<open>fetch: which instance, which payload, which configuration\<close>

text \<open>
  C6. A call of \<open>fetch\<close> that returns has issued exactly one request, through the mock
  instance when what \<open>isMock\<close> returned for \<open>(url, data, method, options)\<close> is truthy and
  through the real instance otherwise. Conversely, whenever \<open>isMock\<close> returns, the
  selected instance's defaults hold headers for the method, and the two Content-Type
  values are strings or falsy, the call does return and the request is issued through
  the selected instance, mock or real. For an object built by the constructor the two
  instances differ and \<open>isMock\<close> is the predicate that was supplied, or the default one,
  with which every request goes through the real instance.
\<close>

theorem fetch_selects_instance:
  "(fetch sf this w url d m opts = (Inr h, w') \<longrightarrow>
      (\<exists>mock config.
         isMock this url (arg_data d) (arg_method m) (JObj (arg_options opts)) = Inr mock \<and>
         log w' = log w @
           [Request (if truthy mock then mockInstance this else real_instance this) config])) \<and>
   (isMock this url (arg_data d) (arg_method m) (JObj (arg_options opts)) = Inr mock \<longrightarrow>
    inst = (if truthy mock then mockInstance this else real_instance this) \<longrightarrow>
    member_of (headers (heap w (inst_defaults inst))) (arg_method m) \<noteq> Missing \<longrightarrow>
    string_or_falsy (default_content_type_header (headers (heap w (inst_defaults inst)))
                       (arg_method m)) \<longrightarrow>
    string_or_falsy (option_content_type_header (arg_options opts)) \<longrightarrow>
      (\<exists>h1 w1 config. fetch sf this w url d m opts = (Inr h1, w1) \<and>
         log w1 = log w @ [Request inst config])) \<and>
   (DcFetch_constructor lib okTip errTip mk w0 = (Inr this, w0') \<longrightarrow>
      real_instance this \<noteq> mockInstance this \<and>
      isMock this = (case mk of None \<Rightarrow> default_isMock | Some f \<Rightarrow> f) \<and>
      (mk = None \<longrightarrow> fetch sf this w url d m opts = (Inr h, w') \<longrightarrow>
         (\<exists>config. log w' = log w @ [Request (real_instance this) config])))"
proof (intro conjI impI)
  assume "fetch sf this w url d m opts = (Inr h, w')"
  then show "\<exists>mock config.
         isMock this url (arg_data d) (arg_method m) (JObj (arg_options opts)) = Inr mock \<and>
         log w' = log w @
           [Request (if truthy mock then mockInstance this else real_instance this) config]"
    by (rule fetch_Inr_through)
next
  assume "isMock this url (arg_data d) (arg_method m) (JObj (arg_options opts)) = Inr mock"
    and "inst = (if truthy mock then mockInstance this else real_instance this)"
    and "member_of (headers (heap w (inst_defaults inst))) (arg_method m) \<noteq> Missing"
    and "string_or_falsy (default_content_type_header (headers (heap w (inst_defaults inst)))
                       (arg_method m))"
    and "string_or_falsy (option_content_type_header (arg_options opts))"
  then show "\<exists>h1 w1 config. fetch sf this w url d m opts = (Inr h1, w1) \<and>
         log w1 = log w @ [Request inst config]"
    by (rule fetch_returns_through)
next
  assume "DcFetch_constructor lib okTip errTip mk w0 = (Inr this, w0')"
  then show "real_instance this \<noteq> mockInstance this"
    by (rule constructor_isMock(1))
next
  assume "DcFetch_constructor lib okTip errTip mk w0 = (Inr this, w0')"
  then show "isMock this = (case mk of None \<Rightarrow> default_isMock | Some f \<Rightarrow> f)"
    by (rule constructor_isMock(2))
next
  assume built: "DcFetch_constructor lib okTip errTip mk w0 = (Inr this, w0')"
    and none: "mk = None"
    and r: "fetch sf this w url d m opts = (Inr h, w')"
  from built none have "isMock this = default_isMock"
    using constructor_isMock(2) by fastforce
  moreover from r obtain mock' config where
    "isMock this url (arg_data d) (arg_method m) (JObj (arg_options opts)) = Inr mock'"
    and l: "log w' = log w @
        [Request (if truthy mock' then mockInstance this else real_instance this) config]"
    using fetch_Inr_through by blast
  ultimately have "mock' = JBool False"
    by (simp add: default_isMock_def)
  with l show "\<exists>config. log w' = log w @ [Request (real_instance this) config]"
    by simp
qed


theorem fetch_selects_instance_witness:
  "DcFetch_constructor axios_library_defaults None None (Some mock_by_url) world0
     = (Inr dcFetch2, world1) \<and>
   isMock dcFetch2 ''/mock/users'' (arg_data (JObj [(''a'', JNum 1)])) (arg_method None)
     (JObj (arg_options None)) = Inr (JBool True) \<and>
   member_of (headers (heap world1 (inst_defaults (mockInstance dcFetch2)))) (arg_method None)
     \<noteq> Missing \<and>
   string_or_falsy (default_content_type_header
     (headers (heap world1 (inst_defaults (mockInstance dcFetch2)))) (arg_method None)) \<and>
   string_or_falsy (option_content_type_header (arg_options None)) \<and>
   (\<exists>h1 w1 config.
      fetch stringify0 dcFetch2 world1 ''/mock/users'' (JObj [(''a'', JNum 1)]) None None
        = (Inr h1, w1) \<and>
      log w1 = log world1 @ [Request (mockInstance dcFetch2) config]) \<and>
   real_instance dcFetch2 \<noteq> mockInstance dcFetch2 \<and>
   isMock dcFetch2 = mock_by_url \<and>
   DcFetch_constructor axios_library_defaults None None None world0 = (Inr dcFetch0, world1) \<and>
   fetch stringify0 dcFetch0 world1 ''/users'' (JObj [(''a'', JNum 1)]) None None
     = (Inr handle1, world2) \<and>
   (\<exists>config. log world2 = log world1 @ [Request (real_instance dcFetch0) config])"
proof -
  note at_mock = fetch_selects_instance [where sf = stringify0 and this = dcFetch2
      and w = world1 and url = "''/mock/users''" and d = "JObj [(''a'', JNum 1)]"
      and m = None and opts = None and mock = "JBool True"
      and inst = "mockInstance dcFetch2" and lib = axios_library_defaults
      and okTip = None and errTip = None and mk = "Some mock_by_url"
      and ?w0.0 = world0 and w0' = world1]
  note at_real = fetch_selects_instance [where sf = stringify0 and this = dcFetch0
      and w = world1 and url = "''/users''" and d = "JObj [(''a'', JNum 1)]"
      and m = None and opts = None and h = handle1 and w' = world2
      and lib = axios_library_defaults
      and okTip = None and errTip = None and mk = None
      and ?w0.0 = world0 and w0' = world1]
  have a: "isMock dcFetch2 ''/mock/users'' (arg_data (JObj [(''a'', JNum 1)])) (arg_method None)
     (JObj (arg_options None)) = Inr (JBool True)"
    by (simp add: dcFetch2_def mock_by_url_def)
  have i: "mockInstance dcFetch2
      = (if truthy (JBool True) then mockInstance dcFetch2 else real_instance dcFetch2)"
    by simp
  have hs: "headers (heap world1 (inst_defaults (mockInstance dcFetch2))) = json_headers"
    by (simp add: dcFetch2_def dcFetch0_def world1_def configured_defaults_def)
  have b: "member_of (headers (heap world1 (inst_defaults (mockInstance dcFetch2))))
      (arg_method None) \<noteq> Missing"
    unfolding hs
    by (simp add: member_of_def own_prop_def arg_method_def json_headers_def
        axios_library_defaults_def)
  have c: "string_or_falsy (default_content_type_header
     (headers (heap world1 (inst_defaults (mockInstance dcFetch2)))) (arg_method None))"
    unfolding hs
    by (simp add: string_or_falsy_def default_content_type_header_def own_prop_def
        arg_method_def json_headers_def axios_library_defaults_def)
  have e: "string_or_falsy (option_content_type_header (arg_options None))"
    by (simp add: string_or_falsy_def option_content_type_header_def own_prop_def
        arg_options_def)
  have through_mock: "\<exists>h1 w1 config.
      fetch stringify0 dcFetch2 world1 ''/mock/users'' (JObj [(''a'', JNum 1)]) None None
        = (Inr h1, w1) \<and>
      log w1 = log world1 @ [Request (mockInstance dcFetch2) config]"
    by (rule at_mock [THEN conjunct2, THEN conjunct1, THEN mp, THEN mp, THEN mp, THEN mp,
          THEN mp, OF a i b c e])
  note built = at_mock [THEN conjunct2, THEN conjunct2, THEN mp, OF constructor_example_mock]
  have differ: "real_instance dcFetch2 \<noteq> mockInstance dcFetch2"
    by (rule built [THEN conjunct1])
  have pred: "isMock dcFetch2 = mock_by_url"
    using built [THEN conjunct2, THEN conjunct1] by simp
  have through_real: "\<exists>config. log world2 = log world1 @ [Request (real_instance dcFetch0) config]"
    by (rule at_real [THEN conjunct2, THEN conjunct2, THEN mp, OF constructor_example,
          THEN conjunct2, THEN conjunct2, THEN mp, THEN mp, OF refl fetch_example])
  from constructor_example_mock a b c e through_mock differ pred constructor_example
    fetch_example through_real
  show ?thesis by (intro conjI)
qed

text \<open>
  C5. In a call of \<open>fetch\<close> that returns, the payload the dispatcher puts into the
  configuration (as \<open>params\<close> for \<^verbatim>\<open>get\<close>, as \<open>data\<close> otherwise, ahead of the spread of
  the options) is \<open>stringify\<close> of the caller's data exactly when the selected instance's
  default Content-Type for the method, or the Content-Type in the per-call headers,
  contains \<^verbatim>\<open>application/x-www-form-urlencoded\<close>; otherwise it is the caller's data
  unchanged.
\<close>

theorem fetch_form_encoding:
  assumes "fetch sf this w url d m opts = (Inr h, w')"
  shows "\<exists>inst built.
     log w' = log w @ [Request inst (JObj (built @ arg_options opts))] \<and>
     map fst built = [''method'', ''url'', ''data'', ''params'', ''cancelToken''] \<and>
     (if arg_method m = ''get'' then get_prop (JObj built) ''params''
      else get_prop (JObj built) ''data'')
       = (if contains_form (default_content_type_header
                              (headers (heap w (inst_defaults inst))) (arg_method m)) \<or>
             contains_form (option_content_type_header (arg_options opts))
          then JStr (sf (arg_data d)) else arg_data d)"
proof -
  from assms obtain mock dct form where
    dct: "defaultsContentType
       (headers (heap w (inst_defaults
          (if truthy mock then mockInstance this else real_instance this))))
       (arg_method m) = Inr dct"
    and form: "wants_form dct (contentType (arg_options opts)) = Inr form"
    and w': "w' = w\<lparr>fresh := fresh w + 2,
           log := log w @
             [Request (if truthy mock then mockInstance this else real_instance this)
                (JObj ([(''method'', JStr (arg_method m)), (''url'', JStr url),
                        (''data'', if arg_method m = ''get'' then JObj []
                                   else if form then JStr (sf (arg_data d)) else arg_data d),
                        (''params'', if arg_method m = ''get''
                                     then (if form then JStr (sf (arg_data d)) else arg_data d)
                                     else JObj []),
                        (''cancelToken'', JToken (fresh w + 1))] @ arg_options opts))]\<rparr>"
    by (rule fetch_Inr)
  let ?inst = "if truthy mock then mockInstance this else real_instance this"
  let ?built = "[(''method'', JStr (arg_method m)), (''url'', JStr url),
                        (''data'', if arg_method m = ''get'' then JObj []
                                   else if form then JStr (sf (arg_data d)) else arg_data d),
                        (''params'', if arg_method m = ''get''
                                     then (if form then JStr (sf (arg_data d)) else arg_data d)
                                     else JObj []),
                        (''cancelToken'', JToken (fresh w + 1))]"
  have f: "form = (contains_form (default_content_type_header
                              (headers (heap w (inst_defaults ?inst))) (arg_method m)) \<or>
             contains_form (option_content_type_header (arg_options opts)))"
    using dct form by (rule wants_form_contains)
  have 1: "log w' = log w @ [Request ?inst (JObj (?built @ arg_options opts))]"
    by (simp add: w')
  have 2: "map fst ?built = [''method'', ''url'', ''data'', ''params'', ''cancelToken'']"
    by simp
  have 3: "(if arg_method m = ''get'' then get_prop (JObj ?built) ''params''
      else get_prop (JObj ?built) ''data'')
       = (if form then JStr (sf (arg_data d)) else arg_data d)"
    by (simp add: own_prop_def)
  from 1 2 3 f show ?thesis by metis
qed

theorem fetch_form_encoding_witness:
  "fetch stringify0 dcFetch0 world2 ''/users/7'' (JObj [(''a'', JNum 1)]) (Some ''patch'')
     (Some [(''cancelToken'', JToken 3)]) = (Inr handle2, world3) \<and>
   (\<exists>inst built.
     log world3 = log world2 @
       [Request inst (JObj (built @ arg_options (Some [(''cancelToken'', JToken 3)])))] \<and>
     map fst built = [''method'', ''url'', ''data'', ''params'', ''cancelToken''] \<and>
     (if arg_method (Some ''patch'') = ''get'' then get_prop (JObj built) ''params''
      else get_prop (JObj built) ''data'')
       = (if contains_form (default_content_type_header
                              (headers (heap world2 (inst_defaults inst)))
                              (arg_method (Some ''patch''))) \<or>
             contains_form (option_content_type_header
                              (arg_options (Some [(''cancelToken'', JToken 3)])))
          then JStr (stringify0 (arg_data (JObj [(''a'', JNum 1)])))
          else arg_data (JObj [(''a'', JNum 1)])))"
  using fetch_form_encoding [OF fetch_example_patch] fetch_example_patch
  by blast


text \<open>
  C4. The configuration a returning call of \<open>fetch\<close> passes to the instance is the object
  literal with the fields \<open>method\<close>, \<open>url\<close>, \<open>data\<close>, \<open>params\<close>, \<open>cancelToken\<close>,
  followed by the spread of the options. For \<^verbatim>\<open>get\<close> the dispatcher puts the payload
  (the caller's data, form-encoded or not) into \<open>params\<close> and an empty object into
  \<open>data\<close>; for every other method it puts the payload into \<open>data\<close> and an empty object
  into \<open>params\<close>. These are the fields the instance reads unless the options carry a
  \<open>data\<close> or \<open>params\<close> key of their own.
\<close>

theorem fetch_places_data:
  assumes "fetch sf this w url d m opts = (Inr h, w')"
  shows "\<exists>inst payload tok config.
     (payload = arg_data d \<or> payload = JStr (sf (arg_data d))) \<and>
     log w' = log w @ [Request inst config] \<and>
     config = JObj ([(''method'', JStr (arg_method m)), (''url'', JStr url),
                     (''data'', if arg_method m = ''get'' then JObj [] else payload),
                     (''params'', if arg_method m = ''get'' then payload else JObj []),
                     (''cancelToken'', tok)] @ arg_options opts) \<and>
     (own_prop (arg_options opts) ''data'' = None \<longrightarrow>
        get_prop config ''data'' = (if arg_method m = ''get'' then JObj [] else payload)) \<and>
     (own_prop (arg_options opts) ''params'' = None \<longrightarrow>
        get_prop config ''params'' = (if arg_method m = ''get'' then payload else JObj []))"
proof -
  from assms obtain mock dct form where
    w': "w' = w\<lparr>fresh := fresh w + 2,
           log := log w @
             [Request (if truthy mock then mockInstance this else real_instance this)
                (JObj ([(''method'', JStr (arg_method m)), (''url'', JStr url),
                        (''data'', if arg_method m = ''get'' then JObj []
                                   else if form then JStr (sf (arg_data d)) else arg_data d),
                        (''params'', if arg_method m = ''get''
                                     then (if form then JStr (sf (arg_data d)) else arg_data d)
                                     else JObj []),
                        (''cancelToken'', JToken (fresh w + 1))] @ arg_options opts))]\<rparr>"
    by (rule fetch_Inr)
  define payload where "payload = (if form then JStr (sf (arg_data d)) else arg_data d)"
  define config where "config =
     JObj ([(''method'', JStr (arg_method m)), (''url'', JStr url),
            (''data'', if arg_method m = ''get'' then JObj [] else payload),
            (''params'', if arg_method m = ''get'' then payload else JObj []),
            (''cancelToken'', JToken (fresh w + 1))] @ arg_options opts)"
  have 1: "payload = arg_data d \<or> payload = JStr (sf (arg_data d))"
    by (simp add: payload_def)
  have 2: "log w' = log w @
      [Request (if truthy mock then mockInstance this else real_instance this) config]"
    by (simp add: w' config_def payload_def)
  have 3: "own_prop (arg_options opts) ''data'' = None \<longrightarrow>
        get_prop config ''data'' = (if arg_method m = ''get'' then JObj [] else payload)"
    unfolding config_def get_prop_append by (simp add: own_prop_def)
  have 4: "own_prop (arg_options opts) ''params'' = None \<longrightarrow>
        get_prop config ''params'' = (if arg_method m = ''get'' then payload else JObj [])"
    unfolding config_def get_prop_append by (simp add: own_prop_def)
  show ?thesis
  proof (intro exI conjI)
    show "payload = arg_data d \<or> payload = JStr (sf (arg_data d))" by (rule 1)
    show "log w' = log w @
      [Request (if truthy mock then mockInstance this else real_instance this) config]"
      by (rule 2)
    show "config =
     JObj ([(''method'', JStr (arg_method m)), (''url'', JStr url),
            (''data'', if arg_method m = ''get'' then JObj [] else payload),
            (''params'', if arg_method m = ''get'' then payload else JObj []),
            (''cancelToken'', JToken (fresh w + 1))] @ arg_options opts)"
      by (rule config_def)
    show "own_prop (arg_options opts) ''data'' = None \<longrightarrow>
        get_prop config ''data'' = (if arg_method m = ''get'' then JObj [] else payload)"
      by (rule 3)
    show "own_prop (arg_options opts) ''params'' = None \<longrightarrow>
        get_prop config ''params'' = (if arg_method m = ''get'' then payload else JObj [])"
      by (rule 4)
  qed
qed

theorem fetch_places_data_witness:
  "fetch stringify0 dcFetch0 world1 ''/users'' (JObj [(''a'', JNum 1)]) (Some ''post'')
     (Some [(''successTip'', JStr ''saved'')]) = (Inr handle3, world4) \<and>
   own_prop (arg_options (Some [(''successTip'', JStr ''saved'')])) ''data'' = None \<and>
   own_prop (arg_options (Some [(''successTip'', JStr ''saved'')])) ''params'' = None \<and>
   (\<exists>inst payload tok config.
     (payload = arg_data (JObj [(''a'', JNum 1)]) \<or>
      payload = JStr (stringify0 (arg_data (JObj [(''a'', JNum 1)])))) \<and>
     log world4 = log world1 @ [Request inst config] \<and>
     config = JObj ([(''method'', JStr (arg_method (Some ''post''))), (''url'', JStr ''/users''),
                     (''data'', if arg_method (Some ''post'') = ''get'' then JObj []
                                else payload),
                     (''params'', if arg_method (Some ''post'') = ''get'' then payload
                                  else JObj []),
                     (''cancelToken'', tok)]
                    @ arg_options (Some [(''successTip'', JStr ''saved'')])) \<and>
     (own_prop (arg_options (Some [(''successTip'', JStr ''saved'')])) ''data'' = None \<longrightarrow>
        get_prop config ''data''
          = (if arg_method (Some ''post'') = ''get'' then JObj [] else payload)) \<and>
     (own_prop (arg_options (Some [(''successTip'', JStr ''saved'')])) ''params'' = None \<longrightarrow>
        get_prop config ''params''
          = (if arg_method (Some ''post'') = ''get'' then payload else JObj [])))"
proof -
  have a: "own_prop (arg_options (Some [(''successTip'', JStr ''saved'')])) ''data'' = None"
    by (simp add: own_prop_def arg_options_def)
  have b: "own_prop (arg_options (Some [(''successTip'', JStr ''saved'')])) ''params'' = None"
    by (simp add: own_prop_def arg_options_def)
  show ?thesis
    by (intro conjI fetch_example_post a b fetch_places_data [OF fetch_example_post])
qed

text \<open>
  C10. The options are spread last: whatever key they hold is what the configuration
  holds for that key. Without a \<open>cancelToken\<close> among the options the request carries the
  token that the handle's \<open>cancel\<close> cancels; with one (a token the caller created
  earlier) the request carries the caller's token, and \<open>cancel\<close> on the handle still
  cancels only the internal token, which the request does not carry.
\<close>

theorem options_override:
  assumes "fetch sf this w url d m opts = (Inr h, w')"
  shows "\<exists>inst config.
     log w' = log w @ [Request inst config] \<and>
     (\<forall>k v. own_prop (arg_options opts) k = Some v \<longrightarrow> get_prop config k = v) \<and>
     (own_prop (arg_options opts) ''cancelToken'' = None \<longrightarrow>
        get_prop config ''cancelToken'' = JToken (cancel_target h)) \<and>
     (\<forall>v. own_prop (arg_options opts) ''cancelToken'' = Some v \<longrightarrow> created_before w v \<longrightarrow>
        get_prop config ''cancelToken'' \<noteq> JToken (cancel_target h)) \<and>
     (\<forall>w''. handle_cancel h w'' =
        w''\<lparr>log := log w'' @ [Cancel (cancel_target h) canceled_message]\<rparr>)"
proof -
  from assms obtain mock dct form where
    h: "h = \<lparr>promise = fresh w, cancel_target = fresh w + 1,
          successTip = option_successTip (arg_options opts),
          errorTip = option_errorTip (arg_method m) (arg_options opts)\<rparr>"
    and w': "w' = w\<lparr>fresh := fresh w + 2,
           log := log w @
             [Request (if truthy mock then mockInstance this else real_instance this)
                (JObj ([(''method'', JStr (arg_method m)), (''url'', JStr url),
                        (''data'', if arg_method m = ''get'' then JObj []
                                   else if form then JStr (sf (arg_data d)) else arg_data d),
                        (''params'', if arg_method m = ''get''
                                     then (if form then JStr (sf (arg_data d)) else arg_data d)
                                     else JObj []),
                        (''cancelToken'', JToken (fresh w + 1))] @ arg_options opts))]\<rparr>"
    by (rule fetch_Inr)
  define config where "config =
     JObj ([(''method'', JStr (arg_method m)), (''url'', JStr url),
                        (''data'', if arg_method m = ''get'' then JObj []
                                   else if form then JStr (sf (arg_data d)) else arg_data d),
                        (''params'', if arg_method m = ''get''
                                     then (if form then JStr (sf (arg_data d)) else arg_data d)
                                     else JObj []),
                        (''cancelToken'', JToken (fresh w + 1))] @ arg_options opts)"
  have 1: "log w' = log w @
      [Request (if truthy mock then mockInstance this else real_instance this) config]"
    by (simp add: w' config_def)
  have 2: "\<forall>k v. own_prop (arg_options opts) k = Some v \<longrightarrow> get_prop config k = v"
    unfolding config_def get_prop_append by simp
  have 3: "own_prop (arg_options opts) ''cancelToken'' = None \<longrightarrow>
        get_prop config ''cancelToken'' = JToken (cancel_target h)"
    unfolding config_def get_prop_append by (simp add: own_prop_def h)
  have 4: "\<forall>v. own_prop (arg_options opts) ''cancelToken'' = Some v \<longrightarrow> created_before w v \<longrightarrow>
        get_prop config ''cancelToken'' \<noteq> JToken (cancel_target h)"
    unfolding config_def get_prop_append by (auto simp: h created_before_def)
  have 5: "\<forall>w''. handle_cancel h w'' =
        w''\<lparr>log := log w'' @ [Cancel (cancel_target h) canceled_message]\<rparr>"
    by (simp add: handle_cancel_def)
  show ?thesis
  proof (intro exI conjI)
    show "log w' = log w @
      [Request (if truthy mock then mockInstance this else real_instance this) config]"
      by (rule 1)
  qed (rule 2 3 4 5)+
qed

theorem options_override_witness:
  "fetch stringify0 dcFetch0 world2 ''/users/7'' (JObj [(''a'', JNum 1)]) (Some ''patch'')
     (Some [(''cancelToken'', JToken 3)]) = (Inr handle2, world3) \<and>
   own_prop (arg_options (Some [(''cancelToken'', JToken 3)])) ''cancelToken''
     = Some (JToken 3) \<and>
   created_before world2 (JToken 3) \<and>
   (\<exists>inst config.
     log world3 = log world2 @ [Request inst config] \<and>
     (\<forall>k v. own_prop (arg_options (Some [(''cancelToken'', JToken 3)])) k = Some v
        \<longrightarrow> get_prop config k = v) \<and>
     (own_prop (arg_options (Some [(''cancelToken'', JToken 3)])) ''cancelToken'' = None \<longrightarrow>
        get_prop config ''cancelToken'' = JToken (cancel_target handle2)) \<and>
     (\<forall>v. own_prop (arg_options (Some [(''cancelToken'', JToken 3)])) ''cancelToken'' = Some v
        \<longrightarrow> created_before world2 v
        \<longrightarrow> get_prop config ''cancelToken'' \<noteq> JToken (cancel_target handle2)) \<and>
     (\<forall>w''. handle_cancel handle2 w'' =
        w''\<lparr>log := log w'' @ [Cancel (cancel_target handle2) canceled_message]\<rparr>))"
proof -
  have a: "own_prop (arg_options (Some [(''cancelToken'', JToken 3)])) ''cancelToken''
     = Some (JToken 3)"
    by (simp add: own_prop_def arg_options_def)
  have b: "created_before world2 (JToken 3)"
    by (simp add: created_before_def world2_def)
  show ?thesis
    by (intro conjI fetch_example_patch a b options_override [OF fetch_example_patch])
qed

subsection \<open>Cancellation and settlement\<close>

text \<open>
  C2. The promise a returning call of \<open>fetch\<close> gives has a \<open>cancel\<close> that calls the
  canceller of the token the dispatcher put into the configuration, with the message
  \<^verbatim>\<open>{canceled: true}\<close>. When the request ends in an error whose message carries a truthy
  \<open>canceled\<close> flag, settling changes nothing: no hook is called and the promise is
  neither resolved nor rejected.
\<close>

theorem cancel_is_silent:
  assumes "fetch sf this w url d m opts = (Inr h, w')"
    and "truthy (get_prop (get_prop err ''message'') ''canceled'')"
  shows "(\<exists>inst built.
            log w' = log w @ [Request inst (JObj (built @ arg_options opts))] \<and>
            get_prop (JObj built) ''cancelToken'' = JToken (cancel_target h)) \<and>
         handle_cancel h w1 =
           w1\<lparr>log := log w1 @ [Cancel (cancel_target h) (JObj [(''canceled'', JBool True)])]\<rparr> \<and>
         settle obj h (Failed err) w2 = w2"
proof -
  from assms(1) obtain mock dct form where
    h: "h = \<lparr>promise = fresh w, cancel_target = fresh w + 1,
          successTip = option_successTip (arg_options opts),
          errorTip = option_errorTip (arg_method m) (arg_options opts)\<rparr>"
    and w': "w' = w\<lparr>fresh := fresh w + 2,
           log := log w @
             [Request (if truthy mock then mockInstance this else real_instance this)
                (JObj ([(''method'', JStr (arg_method m)), (''url'', JStr url),
                        (''data'', if arg_method m = ''get'' then JObj []
                                   else if form then JStr (sf (arg_data d)) else arg_data d),
                        (''params'', if arg_method m = ''get''
                                     then (if form then JStr (sf (arg_data d)) else arg_data d)
                                     else JObj []),
                        (''cancelToken'', JToken (fresh w + 1))] @ arg_options opts))]\<rparr>"
    by (rule fetch_Inr)
  let ?built = "[(''method'', JStr (arg_method m)), (''url'', JStr url),
                        (''data'', if arg_method m = ''get'' then JObj []
                                   else if form then JStr (sf (arg_data d)) else arg_data d),
                        (''params'', if arg_method m = ''get''
                                     then (if form then JStr (sf (arg_data d)) else arg_data d)
                                     else JObj []),
                        (''cancelToken'', JToken (fresh w + 1))]"
  have 1: "\<exists>inst built.
            log w' = log w @ [Request inst (JObj (built @ arg_options opts))] \<and>
            get_prop (JObj built) ''cancelToken'' = JToken (cancel_target h)"
  proof (intro exI conjI)
    show "log w' = log w @
        [Request (if truthy mock then mockInstance this else real_instance this)
           (JObj (?built @ arg_options opts))]"
      by (simp add: w')
    show "get_prop (JObj ?built) ''cancelToken'' = JToken (cancel_target h)"
      by (simp add: own_prop_def h)
  qed
  have 2: "handle_cancel h w1 =
           w1\<lparr>log := log w1 @ [Cancel (cancel_target h) (JObj [(''canceled'', JBool True)])]\<rparr>"
    by (simp add: handle_cancel_def canceled_message_def)
  have 3: "settle obj h (Failed err) w2 = w2"
    using isCanceled_flag [OF assms(2)] by simp
  from 1 2 3 show ?thesis by (intro conjI)
qed

theorem cancel_is_silent_witness:
  "fetch stringify0 dcFetch0 world1 ''/users'' (JObj [(''a'', JNum 1)]) None None
     = (Inr handle1, world2) \<and>
   truthy (get_prop (get_prop cancel_error ''message'') ''canceled'') \<and>
   (\<exists>inst built.
      log world2 = log world1 @ [Request inst (JObj (built @ arg_options None))] \<and>
      get_prop (JObj built) ''cancelToken'' = JToken (cancel_target handle1)) \<and>
   handle_cancel handle1 world2 =
     world2\<lparr>log := log world2 @
        [Cancel (cancel_target handle1) (JObj [(''canceled'', JBool True)])]\<rparr> \<and>
   settle dcFetch0 handle1 (Failed cancel_error) world2 = world2"
  by (intro conjI fetch_example cancel_error_flag
      cancel_is_silent [OF fetch_example cancel_error_flag, THEN conjunct1]
      cancel_is_silent [OF fetch_example cancel_error_flag, THEN conjunct2, THEN conjunct1]
      cancel_is_silent [OF fetch_example cancel_error_flag, THEN conjunct2, THEN conjunct2])

text \<open>
  C7, as stated, fails when a hook throws: the request of the example succeeds with a
  response, the success hook is called and throws, and the promise is rejected with what
  the hook threw instead of being resolved with \<^verbatim>\<open>response.data\<close>.
\<close>

theorem throwing_hook_rejects:
  "fetch stringify0 dcFetch1 world1 ''/users'' (JObj [(''a'', JNum 1)]) None None
     = (Inr handle1, world2) \<and>
   log (settle dcFetch1 handle1 (Fulfilled response0) world2) =
     log world2 @ [ShowSuccessTip response0 (JBool False),
                   Reject (promise handle1) (Thrown (JStr ''render failed''))] \<and>
   log (settle dcFetch1 handle1 (Fulfilled response0) world2) \<noteq>
     log world2 @ [ShowSuccessTip response0 (JBool False),
                   Resolve (promise handle1) (get_prop response0 ''data'')]"
proof -
  have s: "log (settle dcFetch1 handle1 (Fulfilled response0) world2) =
     log world2 @ [ShowSuccessTip response0 (JBool False),
                   Reject (promise handle1) (Thrown (JStr ''render failed''))]"
    by (simp add: dcFetch1_def throwing_hook_def handle1_def)
  have n: "log (settle dcFetch1 handle1 (Fulfilled response0) world2) \<noteq>
     log world2 @ [ShowSuccessTip response0 (JBool False),
                   Resolve (promise handle1) (get_prop response0 ''data'')]"
    unfolding s by simp
  from fetch_example_hooks s n show ?thesis by (intro conjI)
qed

text \<open>
  C7, amended. The handle of a returning call of \<open>fetch\<close> carries the \<open>successTip\<close>
  option (\<^verbatim>\<open>false\<close> when the options have none) and the \<open>errorTip\<close> option (the
  method's default text when they have none). When the request succeeds with a response,
  the success hook is called with the response and \<open>successTip\<close>; if the hook returns,
  the promise is resolved with \<^verbatim>\<open>response.data\<close>, and if it throws, the promise is
  rejected with what it threw. When the request fails with an error that is not a
  cancellation, the error hook is called with the error and \<open>errorTip\<close>; if the hook
  returns, the promise is rejected with that error, and if it throws, with what it threw.
\<close>

theorem settle_notifies:
  assumes "fetch sf this w url d m opts = (Inr h, w')"
  shows "successTip h = (if get_prop (JObj (arg_options opts)) ''successTip'' = JUndefined
                         then JBool False
                         else get_prop (JObj (arg_options opts)) ''successTip'') \<and>
         errorTip h = (if get_prop (JObj (arg_options opts)) ''errorTip'' = JUndefined
                       then JStr (if arg_method m = ''get'' then errorTip_get
                                  else errorTip_other)
                       else get_prop (JObj (arg_options opts)) ''errorTip'') \<and>
         (response \<noteq> JUndefined \<longrightarrow> response \<noteq> JNull \<longrightarrow>
          onShowSuccessTip obj response (successTip h) = None \<longrightarrow>
            log (settle obj h (Fulfilled response) w1) =
              log w1 @ [ShowSuccessTip response (successTip h),
                        Resolve (promise h) (get_prop response ''data'')]) \<and>
         (onShowSuccessTip obj response (successTip h) = Some e \<longrightarrow>
            log (settle obj h (Fulfilled response) w1) =
              log w1 @ [ShowSuccessTip response (successTip h), Reject (promise h) e]) \<and>
         (\<not> isCanceled err \<longrightarrow> onShowErrorTip obj err (errorTip h) = None \<longrightarrow>
            log (settle obj h (Failed err) w1) =
              log w1 @ [ShowErrorTip err (errorTip h), Reject (promise h) (Thrown err)]) \<and>
         (\<not> isCanceled err \<longrightarrow> onShowErrorTip obj err (errorTip h) = Some e \<longrightarrow>
            log (settle obj h (Failed err) w1) =
              log w1 @ [ShowErrorTip err (errorTip h), Reject (promise h) e])"
proof -
  from assms obtain mock dct form where
    h: "h = \<lparr>promise = fresh w, cancel_target = fresh w + 1,
          successTip = option_successTip (arg_options opts),
          errorTip = option_errorTip (arg_method m) (arg_options opts)\<rparr>"
    by (rule fetch_Inr)
  have 1: "successTip h = (if get_prop (JObj (arg_options opts)) ''successTip'' = JUndefined
                         then JBool False
                         else get_prop (JObj (arg_options opts)) ''successTip'')"
    by (simp add: h option_successTip_def Let_def)
  have 2: "errorTip h = (if get_prop (JObj (arg_options opts)) ''errorTip'' = JUndefined
                       then JStr (if arg_method m = ''get'' then errorTip_get
                                  else errorTip_other)
                       else get_prop (JObj (arg_options opts)) ''errorTip'')"
    by (simp add: h option_errorTip_def Let_def)
  have 3: "response \<noteq> JUndefined \<longrightarrow> response \<noteq> JNull \<longrightarrow>
          onShowSuccessTip obj response (successTip h) = None \<longrightarrow>
            log (settle obj h (Fulfilled response) w1) =
              log w1 @ [ShowSuccessTip response (successTip h),
                        Resolve (promise h) (get_prop response ''data'')]"
    by simp
  have 4: "onShowSuccessTip obj response (successTip h) = Some e \<longrightarrow>
            log (settle obj h (Fulfilled response) w1) =
              log w1 @ [ShowSuccessTip response (successTip h), Reject (promise h) e]"
    by simp
  have 5: "\<not> isCanceled err \<longrightarrow> onShowErrorTip obj err (errorTip h) = None \<longrightarrow>
            log (settle obj h (Failed err) w1) =
              log w1 @ [ShowErrorTip err (errorTip h), Reject (promise h) (Thrown err)]"
    by simp
  have 6: "\<not> isCanceled err \<longrightarrow> onShowErrorTip obj err (errorTip h) = Some e \<longrightarrow>
            log (settle obj h (Failed err) w1) =
              log w1 @ [ShowErrorTip err (errorTip h), Reject (promise h) e]"
    by simp
  from 1 2 3 4 5 6 show ?thesis by (intro conjI)
qed

theorem settle_notifies_witness:
  "fetch stringify0 dcFetch0 world1 ''/users'' (JObj [(''a'', JNum 1)]) (Some ''post'')
     (Some [(''successTip'', JStr ''saved'')]) = (Inr handle3, world4) \<and>
   successTip handle3 = JStr ''saved'' \<and>
   response0 \<noteq> JUndefined \<and> response0 \<noteq> JNull \<and>
   onShowSuccessTip dcFetch0 response0 (successTip handle3) = None \<and>
   log (settle dcFetch0 handle3 (Fulfilled response0) world4) =
     log world4 @ [ShowSuccessTip response0 (successTip handle3),
                   Resolve (promise handle3) (get_prop response0 ''data'')] \<and>
   \<not> isCanceled error0 \<and>
   onShowErrorTip dcFetch0 error0 (errorTip handle3) = None \<and>
   log (settle dcFetch0 handle3 (Failed error0) world4) =
     log world4 @ [ShowErrorTip error0 (errorTip handle3),
                   Reject (promise handle3) (Thrown error0)]"
proof -
  have a: "response0 \<noteq> JUndefined" and b: "response0 \<noteq> JNull"
    by (simp_all add: response0_def)
  have c: "onShowSuccessTip dcFetch0 response0 (successTip handle3) = None"
    by (simp add: dcFetch0_def default_hook_def)
  have d: "\<not> isCanceled error0"
    by (simp add: isCanceled_def error0_def js_and_def own_prop_def)
  have e: "onShowErrorTip dcFetch0 error0 (errorTip handle3) = None"
    by (simp add: dcFetch0_def default_hook_def)
  have t: "successTip handle3 = JStr ''saved''"
    by (simp add: handle3_def)
  note at_post = settle_notifies [OF fetch_example_post,
      of response0 dcFetch0 world4 "Thrown JNull" error0]
  have ok: "log (settle dcFetch0 handle3 (Fulfilled response0) world4) =
     log world4 @ [ShowSuccessTip response0 (successTip handle3),
                   Resolve (promise handle3) (get_prop response0 ''data'')]"
    using at_post [THEN conjunct2, THEN conjunct2, THEN conjunct1] a b c by (elim impE) 
  have err: "log (settle dcFetch0 handle3 (Failed error0) world4) =
     log world4 @ [ShowErrorTip error0 (errorTip handle3),
                   Reject (promise handle3) (Thrown error0)]"
    using at_post [THEN conjunct2, THEN conjunct2, THEN conjunct2, THEN conjunct2, THEN conjunct1]
      d e by (elim impE)
  from fetch_example_post t a b c ok d e err show ?thesis by (intro conjI)
qed

subsection \<open>The request methods\<close>

text \<open>
  C9, as stated, fails in its first part: the class does not expose exactly the six
  methods. \<open>fetch\<close> is a method of the class too, is not one of the six, and issues
  requests, here one with the method \<^verbatim>\<open>head\<close>.
\<close>

theorem fetch_is_exposed:
  "''fetch'' \<in> set DcFetch_methods \<and>
   ''fetch'' \<notin> {''get'', ''post'', ''put'', ''patch'', ''del'', ''singleGet''} \<and>
   fetch stringify0 dcFetch0 world1 ''/users/7'' JUndefined (Some ''head'') None
     = (Inr handle4, world7) \<and>
   log world7 = log world1 @
     [Request (real_instance dcFetch0)
        (JObj [(''method'', JStr ''head''), (''url'', JStr ''/users/7''),
               (''data'', JObj []), (''params'', JObj []), (''cancelToken'', JToken 3)])]"
proof -
  have a: "''fetch'' \<in> set DcFetch_methods"
    by (simp add: DcFetch_methods_def)
  have b: "''fetch'' \<notin> {''get'', ''post'', ''put'', ''patch'', ''del'', ''singleGet''}"
    by simp
  have c: "log world7 = log world1 @
     [Request (real_instance dcFetch0)
        (JObj [(''method'', JStr ''head''), (''url'', JStr ''/users/7''),
               (''data'', JObj []), (''params'', JObj []), (''cancelToken'', JToken 3)])]"
    by (simp add: world7_def world1_def dcFetch0_def)
  from a b fetch_example_head c show ?thesis by (intro conjI)
qed

text \<open>
  C9, amended. The class declares the six request methods \<open>get\<close>, \<open>post\<close>, \<open>put\<close>,
  \<open>patch\<close>, \<open>del\<close>, \<open>singleGet\<close> and, besides them, \<open>fetch\<close> and \<open>setDefaultOption\<close>.
  Each of \<open>get\<close>, \<open>post\<close>, \<open>put\<close>, \<open>patch\<close>, \<open>del\<close> is \<open>fetch\<close> with the same url, data
  and options and the method \<^verbatim>\<open>get\<close>, \<^verbatim>\<open>post\<close>, \<^verbatim>\<open>put\<close>, \<^verbatim>\<open>patch\<close>, \<^verbatim>\<open>delete\<close>,
  and a returning call of each has built a configuration with that method; for \<open>del\<close>
  it is \<^verbatim>\<open>delete\<close>, not \<^verbatim>\<open>del\<close>.
\<close>

theorem request_methods:
  "set DcFetch_methods =
     {''get'', ''post'', ''put'', ''patch'', ''del'', ''singleGet''} \<union>
     {''fetch'', ''setDefaultOption''} \<and>
   get sf this w url d opts = fetch sf this w url d (Some ''get'') opts \<and>
   post sf this w url d opts = fetch sf this w url d (Some ''post'') opts \<and>
   put sf this w url d opts = fetch sf this w url d (Some ''put'') opts \<and>
   patch sf this w url d opts = fetch sf this w url d (Some ''patch'') opts \<and>
   del sf this w url d opts = fetch sf this w url d (Some ''delete'') opts \<and>
   (get sf this w url d opts = (Inr h, w') \<longrightarrow>
      (\<exists>inst built.
         log w' = log w @ [Request inst (JObj (built @ arg_options opts))] \<and>
         get_prop (JObj built) ''method'' = JStr ''get'')) \<and>
   (post sf this w url d opts = (Inr h, w') \<longrightarrow>
      (\<exists>inst built.
         log w' = log w @ [Request inst (JObj (built @ arg_options opts))] \<and>
         get_prop (JObj built) ''method'' = JStr ''post'')) \<and>
   (put sf this w url d opts = (Inr h, w') \<longrightarrow>
      (\<exists>inst built.
         log w' = log w @ [Request inst (JObj (built @ arg_options opts))] \<and>
         get_prop (JObj built) ''method'' = JStr ''put'')) \<and>
   (patch sf this w url d opts = (Inr h, w') \<longrightarrow>
      (\<exists>inst built.
         log w' = log w @ [Request inst (JObj (built @ arg_options opts))] \<and>
         get_prop (JObj built) ''method'' = JStr ''patch'')) \<and>
   (del sf this w url d opts = (Inr h, w') \<longrightarrow>
      (\<exists>inst built.
         log w' = log w @ [Request inst (JObj (built @ arg_options opts))] \<and>
         get_prop (JObj built) ''method'' = JStr ''delete''))"
proof (intro conjI impI)
  show "set DcFetch_methods =
     {''get'', ''post'', ''put'', ''patch'', ''del'', ''singleGet''} \<union>
     {''fetch'', ''setDefaultOption''}"
    unfolding DcFetch_methods_def by (simp add: insert_commute)
next
  assume "get sf this w url d opts = (Inr h, w')"
  then have "fetch sf this w url d (Some ''get'') opts = (Inr h, w')"
    by (simp add: get_def)
  then show "\<exists>inst built.
         log w' = log w @ [Request inst (JObj (built @ arg_options opts))] \<and>
         get_prop (JObj built) ''method'' = JStr ''get''"
    by (rule fetch_method_field)
next
  assume "post sf this w url d opts = (Inr h, w')"
  then have "fetch sf this w url d (Some ''post'') opts = (Inr h, w')"
    by (simp add: post_def)
  then show "\<exists>inst built.
         log w' = log w @ [Request inst (JObj (built @ arg_options opts))] \<and>
         get_prop (JObj built) ''method'' = JStr ''post''"
    by (rule fetch_method_field)
next
  assume "put sf this w url d opts = (Inr h, w')"
  then have "fetch sf this w url d (Some ''put'') opts = (Inr h, w')"
    by (simp add: put_def)
  then show "\<exists>inst built.
         log w' = log w @ [Request inst (JObj (built @ arg_options opts))] \<and>
         get_prop (JObj built) ''method'' = JStr ''put''"
    by (rule fetch_method_field)
next
  assume "patch sf this w url d opts = (Inr h, w')"
  then have "fetch sf this w url d (Some ''patch'') opts = (Inr h, w')"
    by (simp add: patch_def)
  then show "\<exists>inst built.
         log w' = log w @ [Request inst (JObj (built @ arg_options opts))] \<and>
         get_prop (JObj built) ''method'' = JStr ''patch''"
    by (rule fetch_method_field)
next
  assume "del sf this w url d opts = (Inr h, w')"
  then have "fetch sf this w url d (Some ''delete'') opts = (Inr h, w')"
    by (simp add: del_def)
  then show "\<exists>inst built.
         log w' = log w @ [Request inst (JObj (built @ arg_options opts))] \<and>
         get_prop (JObj built) ''method'' = JStr ''delete''"
    by (rule fetch_method_field)
qed (simp_all add: get_def post_def put_def patch_def del_def)

theorem request_methods_witness:
  "del stringify0 dcFetch0 world1 ''/users/7'' JUndefined None = (Inr handle4, world5) \<and>
   del stringify0 dcFetch0 world1 ''/users/7'' JUndefined None
     = fetch stringify0 dcFetch0 world1 ''/users/7'' JUndefined (Some ''delete'') None \<and>
   (\<exists>inst built.
      log world5 = log world1 @ [Request inst (JObj (built @ arg_options None))] \<and>
      get_prop (JObj built) ''method'' = JStr ''delete'') \<and>
   get stringify0 dcFetch0 world1 ''/users'' (JObj [(''a'', JNum 1)]) None
     = (Inr handle1, world2) \<and>
   (\<exists>inst built.
      log world2 = log world1 @ [Request inst (JObj (built @ arg_options None))] \<and>
      get_prop (JObj built) ''method'' = JStr ''get'')"
proof -
  note at_del = request_methods [where sf = stringify0 and this = dcFetch0 and w = world1
      and url = "''/users/7''" and d = JUndefined and opts = None and h = handle4
      and w' = world5]
  note at_get = request_methods [where sf = stringify0 and this = dcFetch0 and w = world1
      and url = "''/users''" and d = "JObj [(''a'', JNum 1)]" and opts = None
      and h = handle1 and w' = world2]
  have a: "del stringify0 dcFetch0 world1 ''/users/7'' JUndefined None
     = fetch stringify0 dcFetch0 world1 ''/users/7'' JUndefined (Some ''delete'') None"
    by (rule at_del [THEN conjunct2, THEN conjunct2, THEN conjunct2, THEN conjunct2,
          THEN conjunct2, THEN conjunct1])
  have b: "\<exists>inst built.
      log world5 = log world1 @ [Request inst (JObj (built @ arg_options None))] \<and>
      get_prop (JObj built) ''method'' = JStr ''delete''"
    by (rule at_del [THEN conjunct2, THEN conjunct2, THEN conjunct2, THEN conjunct2,
          THEN conjunct2, THEN conjunct2, THEN conjunct2, THEN conjunct2, THEN conjunct2,
          THEN conjunct2, THEN mp, OF del_example])
  have c: "\<exists>inst built.
      log world2 = log world1 @ [Request inst (JObj (built @ arg_options None))] \<and>
      get_prop (JObj built) ''method'' = JStr ''get''"
    by (rule at_get [THEN conjunct2, THEN conjunct2, THEN conjunct2, THEN conjunct2,
          THEN conjunct2, THEN conjunct2, THEN conjunct1, THEN mp, OF get_example])
  from del_example a b get_example c show ?thesis by (intro conjI)
qed

text \<open>
  C1. \<open>singleGet\<close> is meant to cancel the handle stored under the url, issue a new
  \<^verbatim>\<open>get\<close> and store its handle, for every url. For a url that is a name of
  \<^verbatim>\<open>Object.prototype\<close>, here \<^verbatim>\<open>constructor\<close> on a new object, it throws instead:
  nothing is issued and nothing is stored. (For every other url \<open>singleGet_replaces\<close>
  shows the intended behaviour.)
\<close>

theorem singleGet_inherited_name:
  "singleGet stringify0 dcFetch0 world1 ''constructor'' JUndefined None
     = (Inl TypeError, dcFetch0, world1)"
  by (simp add: singleGet_def member_of_def own_prop_def object_prototype_names_def
      dcFetch0_def)

subsection \<open>The wrapper component\<close>

text \<open>
  C3, as stated, fails in its first part when the wrapper's own props hold the prop
  name: the own props are spread after the injected object, and the wrapped component
  reads the own prop under that name, not the object with the six methods.
\<close>

theorem own_prop_wins:
  "props component2 = [(''dcFetch'', Given (JStr ''mine''))] \<and>
   own_prop (render (arg_propName None) component2) (arg_propName None)
     = Some (Given (JStr ''mine'')) \<and>
   own_prop (render (arg_propName None) component2) (arg_propName None)
     \<noteq> Some (Injected (dcFetch_obj component2))"
  by (simp add: component2_def WithSubscription_constructor_def render_def arg_propName_def
      own_prop_def)

text \<open>
  C3, amended. The wrapper's constructor fills \<^verbatim>\<open>this._$dcFetch\<close> with functions under
  the six names \<open>get\<close>, \<open>post\<close>, \<open>put\<close>, \<open>patch\<close>, \<open>del\<close>, \<open>singleGet\<close> and starts with
  no recorded handle. \<open>render\<close> passes that object under the configured prop name
  (\<^verbatim>\<open>dcFetch\<close> when none is given) ahead of the wrapper's own props: the wrapped
  component reads it under that name when the own props do not hold the name, and reads
  the own prop when they do. A call through each of the six functions, when the
  dispatcher's method of that name returns a handle, appends that handle to the recorded
  ones and returns it, with the dispatcher's result otherwise unchanged; when the call
  throws, nothing is recorded. Unmounting calls \<open>cancel\<close> on every recorded handle, in
  order.
\<close>

theorem hoc_records_and_cancels:
  "dcFetch_obj (WithSubscription_constructor ps)
     = [''get'', ''post'', ''put'', ''patch'', ''del'', ''singleGet''] \<and>
   dcFetchTokens (WithSubscription_constructor ps) = [] \<and>
   arg_propName None = ''dcFetch'' \<and>
   arg_propName (Some name) = name \<and>
   render (arg_propName pn) c = (arg_propName pn, Injected (dcFetch_obj c)) # props c \<and>
   (own_prop (props c) (arg_propName pn) = None \<longrightarrow>
      own_prop (render (arg_propName pn) c) (arg_propName pn)
        = Some (Injected (dcFetch_obj c))) \<and>
   (own_prop (props c) (arg_propName pn) = Some given \<longrightarrow>
      own_prop (render (arg_propName pn) c) (arg_propName pn) = Some given) \<and>
   (''get'' \<in> set (dcFetch_obj c) \<longrightarrow>
    get sf dcFetch w url d opts = (Inr token, w') \<longrightarrow>
      injected_call sf c dcFetch w ''get'' url d opts =
        (Inr token, c\<lparr>dcFetchTokens := dcFetchTokens c @ [token]\<rparr>, dcFetch, w')) \<and>
   (''post'' \<in> set (dcFetch_obj c) \<longrightarrow>
    post sf dcFetch w url d opts = (Inr token, w') \<longrightarrow>
      injected_call sf c dcFetch w ''post'' url d opts =
        (Inr token, c\<lparr>dcFetchTokens := dcFetchTokens c @ [token]\<rparr>, dcFetch, w')) \<and>
   (''put'' \<in> set (dcFetch_obj c) \<longrightarrow>
    put sf dcFetch w url d opts = (Inr token, w') \<longrightarrow>
      injected_call sf c dcFetch w ''put'' url d opts =
        (Inr token, c\<lparr>dcFetchTokens := dcFetchTokens c @ [token]\<rparr>, dcFetch, w')) \<and>
   (''patch'' \<in> set (dcFetch_obj c) \<longrightarrow>
    patch sf dcFetch w url d opts = (Inr token, w') \<longrightarrow>
      injected_call sf c dcFetch w ''patch'' url d opts =
        (Inr token, c\<lparr>dcFetchTokens := dcFetchTokens c @ [token]\<rparr>, dcFetch, w')) \<and>
   (''del'' \<in> set (dcFetch_obj c) \<longrightarrow>
    del sf dcFetch w url d opts = (Inr token, w') \<longrightarrow>
      injected_call sf c dcFetch w ''del'' url d opts =
        (Inr token, c\<lparr>dcFetchTokens := dcFetchTokens c @ [token]\<rparr>, dcFetch, w')) \<and>
   (''singleGet'' \<in> set (dcFetch_obj c) \<longrightarrow>
    singleGet sf dcFetch w url d opts = (Inr token, dcFetch', w') \<longrightarrow>
      injected_call sf c dcFetch w ''singleGet'' url d opts =
        (Inr token, c\<lparr>dcFetchTokens := dcFetchTokens c @ [token]\<rparr>, dcFetch', w')) \<and>
   (injected_call sf c dcFetch w method url d opts = (Inl e, c', dcFetch', w') \<longrightarrow> c' = c) \<and>
   log (componentWillUnmount c w) =
     log w @ map (\<lambda>item. Cancel (cancel_target item) (JObj [(''canceled'', JBool True)]))
               (dcFetchTokens c)"
proof (intro conjI impI)
  show "dcFetch_obj (WithSubscription_constructor ps)
     = [''get'', ''post'', ''put'', ''patch'', ''del'', ''singleGet'']"
    by (rule constructor_methods)
  show "dcFetchTokens (WithSubscription_constructor ps) = []"
    by (simp add: WithSubscription_constructor_def)
  show "arg_propName None = ''dcFetch''"
    by (simp add: arg_propName_def)
  show "arg_propName (Some name) = name"
    by (simp add: arg_propName_def)
  show "render (arg_propName pn) c = (arg_propName pn, Injected (dcFetch_obj c)) # props c"
    by (simp add: render_def)
  show "own_prop (render (arg_propName pn) c) (arg_propName pn) = Some (Injected (dcFetch_obj c))"
    if "own_prop (props c) (arg_propName pn) = None"
    using that by (simp add: render_def own_prop_def map_add_def)
  show "own_prop (render (arg_propName pn) c) (arg_propName pn) = Some given"
    if "own_prop (props c) (arg_propName pn) = Some given"
    using that by (simp add: render_def own_prop_def map_add_def)
  show "injected_call sf c dcFetch w ''get'' url d opts =
        (Inr token, c\<lparr>dcFetchTokens := dcFetchTokens c @ [token]\<rparr>, dcFetch, w')"
    if "''get'' \<in> set (dcFetch_obj c)" and "get sf dcFetch w url d opts = (Inr token, w')"
    using that by (intro injected_call_Inr) (simp_all add: dcFetch_call_def)
  show "injected_call sf c dcFetch w ''post'' url d opts =
        (Inr token, c\<lparr>dcFetchTokens := dcFetchTokens c @ [token]\<rparr>, dcFetch, w')"
    if "''post'' \<in> set (dcFetch_obj c)" and "post sf dcFetch w url d opts = (Inr token, w')"
    using that by (intro injected_call_Inr) (simp_all add: dcFetch_call_def)
  show "injected_call sf c dcFetch w ''put'' url d opts =
        (Inr token, c\<lparr>dcFetchTokens := dcFetchTokens c @ [token]\<rparr>, dcFetch, w')"
    if "''put'' \<in> set (dcFetch_obj c)" and "put sf dcFetch w url d opts = (Inr token, w')"
    using that by (intro injected_call_Inr) (simp_all add: dcFetch_call_def)
  show "injected_call sf c dcFetch w ''patch'' url d opts =
        (Inr token, c\<lparr>dcFetchTokens := dcFetchTokens c @ [token]\<rparr>, dcFetch, w')"
    if "''patch'' \<in> set (dcFetch_obj c)" and "patch sf dcFetch w url d opts = (Inr token, w')"
    using that by (intro injected_call_Inr) (simp_all add: dcFetch_call_def)
  show "injected_call sf c dcFetch w ''del'' url d opts =
        (Inr token, c\<lparr>dcFetchTokens := dcFetchTokens c @ [token]\<rparr>, dcFetch, w')"
    if "''del'' \<in> set (dcFetch_obj c)" and "del sf dcFetch w url d opts = (Inr token, w')"
    using that by (intro injected_call_Inr) (simp_all add: dcFetch_call_def)
  show "injected_call sf c dcFetch w ''singleGet'' url d opts =
        (Inr token, c\<lparr>dcFetchTokens := dcFetchTokens c @ [token]\<rparr>, dcFetch', w')"
    if "''singleGet'' \<in> set (dcFetch_obj c)"
      and "singleGet sf dcFetch w url d opts = (Inr token, dcFetch', w')"
    using that by (intro injected_call_Inr) (simp_all add: dcFetch_call_def)
  show "c' = c"
    if "injected_call sf c dcFetch w method url d opts = (Inl e, c', dcFetch', w')"
    using that by (rule injected_call_Inl)
  show "log (componentWillUnmount c w) =
     log w @ map (\<lambda>item. Cancel (cancel_target item) (JObj [(''canceled'', JBool True)]))
               (dcFetchTokens c)"
    by (simp add: componentWillUnmount_def unmount_log canceled_message_def)
qed


theorem hoc_records_and_cancels_witness:
  "own_prop (props component0) (arg_propName None) = None \<and>
   own_prop (render (arg_propName None) component0) (arg_propName None)
     = Some (Injected (dcFetch_obj component0)) \<and>
   ''get'' \<in> set (dcFetch_obj component0) \<and>
   get stringify0 dcFetch0 world1 ''/users'' (JObj [(''a'', JNum 1)]) None
     = (Inr handle1, world2) \<and>
   injected_call stringify0 component0 dcFetch0 world1 ''get'' ''/users'' (JObj [(''a'', JNum 1)]) None
     = (Inr handle1, component0\<lparr>dcFetchTokens := dcFetchTokens component0 @ [handle1]\<rparr>,
        dcFetch0, world2) \<and>
   ''post'' \<in> set (dcFetch_obj component0) \<and>
   post stringify0 dcFetch0 world1 ''/users'' (JObj [(''a'', JNum 1)]) (Some [(''successTip'', JStr ''saved'')])
     = (Inr handle3, world4) \<and>
   injected_call stringify0 component0 dcFetch0 world1 ''post'' ''/users'' (JObj [(''a'', JNum 1)]) (Some [(''successTip'', JStr ''saved'')])
     = (Inr handle3, component0\<lparr>dcFetchTokens := dcFetchTokens component0 @ [handle3]\<rparr>,
        dcFetch0, world4) \<and>
   ''put'' \<in> set (dcFetch_obj component0) \<and>
   put stringify0 dcFetch0 world1 ''/users/7'' (JObj [(''a'', JNum 1)]) None
     = (Inr handle4, world8) \<and>
   injected_call stringify0 component0 dcFetch0 world1 ''put'' ''/users/7'' (JObj [(''a'', JNum 1)]) None
     = (Inr handle4, component0\<lparr>dcFetchTokens := dcFetchTokens component0 @ [handle4]\<rparr>,
        dcFetch0, world8) \<and>
   ''patch'' \<in> set (dcFetch_obj component0) \<and>
   patch stringify0 dcFetch0 world1 ''/users/7'' (JObj [(''a'', JNum 1)]) None
     = (Inr handle4, world9) \<and>
   injected_call stringify0 component0 dcFetch0 world1 ''patch'' ''/users/7'' (JObj [(''a'', JNum 1)]) None
     = (Inr handle4, component0\<lparr>dcFetchTokens := dcFetchTokens component0 @ [handle4]\<rparr>,
        dcFetch0, world9) \<and>
   ''del'' \<in> set (dcFetch_obj component0) \<and>
   del stringify0 dcFetch0 world1 ''/users/7'' JUndefined None
     = (Inr handle4, world5) \<and>
   injected_call stringify0 component0 dcFetch0 world1 ''del'' ''/users/7'' JUndefined None
     = (Inr handle4, component0\<lparr>dcFetchTokens := dcFetchTokens component0 @ [handle4]\<rparr>,
        dcFetch0, world5) \<and>
   ''singleGet'' \<in> set (dcFetch_obj component0) \<and>
   singleGet stringify0 dcFetch0 world1 ''/users'' (JObj [(''a'', JNum 1)]) None
     = (Inr handle1, dcFetch3, world2) \<and>
   injected_call stringify0 component0 dcFetch0 world1 ''singleGet'' ''/users'' (JObj [(''a'', JNum 1)]) None
     = (Inr handle1, component0\<lparr>dcFetchTokens := dcFetchTokens component0 @ [handle1]\<rparr>,
        dcFetch3, world2) \<and>
   log (componentWillUnmount component1 world2) =
     log world2 @ [Cancel (cancel_target handle1) (JObj [(''canceled'', JBool True)])]"
proof -
  have a: "own_prop (props component0) (arg_propName None) = None"
    by (simp add: component0_def WithSubscription_constructor_def arg_propName_def own_prop_def)
  have r: "own_prop (render (arg_propName None) component0) (arg_propName None)
     = Some (Injected (dcFetch_obj component0))"
    by (rule hoc_records_and_cancels [where pn = None and c = component0,
          THEN conjunct2, THEN conjunct2, THEN conjunct2, THEN conjunct2,
      THEN conjunct2, THEN conjunct1, THEN mp, OF a])
  have m_get: "''get'' \<in> set (dcFetch_obj component0)"
    by (simp add: component0_def constructor_methods)
  have i_get: "injected_call stringify0 component0 dcFetch0 world1 ''get'' ''/users'' (JObj [(''a'', JNum 1)]) None
         = (Inr handle1, component0\<lparr>dcFetchTokens := dcFetchTokens component0 @ [handle1]\<rparr>,
            dcFetch0, world2)"
    by (rule hoc_records_and_cancels [where c = component0 and sf = stringify0
      and dcFetch = dcFetch0 and w = world1 and url = "''/users''"
      and d = "JObj [(''a'', JNum 1)]" and opts = "None"
      and token = handle1 and w' = world2,
      THEN conjunct2, THEN conjunct2, THEN conjunct2, THEN conjunct2,
      THEN conjunct2, THEN conjunct2, THEN conjunct2, THEN conjunct1,
      THEN mp, THEN mp, OF m_get get_example])
  have m_post: "''post'' \<in> set (dcFetch_obj component0)"
    by (simp add: component0_def constructor_methods)
  have i_post: "injected_call stringify0 component0 dcFetch0 world1 ''post'' ''/users'' (JObj [(''a'', JNum 1)]) (Some [(''successTip'', JStr ''saved'')])
         = (Inr handle3, component0\<lparr>dcFetchTokens := dcFetchTokens component0 @ [handle3]\<rparr>,
            dcFetch0, world4)"
    by (rule hoc_records_and_cancels [where c = component0 and sf = stringify0
      and dcFetch = dcFetch0 and w = world1 and url = "''/users''"
      and d = "JObj [(''a'', JNum 1)]" and opts = "Some [(''successTip'', JStr ''saved'')]"
      and token = handle3 and w' = world4,
      THEN conjunct2, THEN conjunct2, THEN conjunct2, THEN conjunct2,
      THEN conjunct2, THEN conjunct2, THEN conjunct2, THEN conjunct2,
      THEN conjunct1, THEN mp, THEN mp, OF m_post post_example])
  have m_put: "''put'' \<in> set (dcFetch_obj component0)"
    by (simp add: component0_def constructor_methods)
  have i_put: "injected_call stringify0 component0 dcFetch0 world1 ''put'' ''/users/7'' (JObj [(''a'', JNum 1)]) None
         = (Inr handle4, component0\<lparr>dcFetchTokens := dcFetchTokens component0 @ [handle4]\<rparr>,
            dcFetch0, world8)"
    by (rule hoc_records_and_cancels [where c = component0 and sf = stringify0
      and dcFetch = dcFetch0 and w = world1 and url = "''/users/7''"
      and d = "JObj [(''a'', JNum 1)]" and opts = "None"
      and token = handle4 and w' = world8,
      THEN conjunct2, THEN conjunct2, THEN conjunct2, THEN conjunct2,
      THEN conjunct2, THEN conjunct2, THEN conjunct2, THEN conjunct2,
      THEN conjunct2, THEN conjunct1, THEN mp, THEN mp, OF m_put put_example])
  have m_patch: "''patch'' \<in> set (dcFetch_obj component0)"
    by (simp add: component0_def constructor_methods)
  have i_patch: "injected_call stringify0 component0 dcFetch0 world1 ''patch'' ''/users/7'' (JObj [(''a'', JNum 1)]) None
         = (Inr handle4, component0\<lparr>dcFetchTokens := dcFetchTokens component0 @ [handle4]\<rparr>,
            dcFetch0, world9)"
    by (rule hoc_records_and_cancels [where c = component0 and sf = stringify0
      and dcFetch = dcFetch0 and w = world1 and url = "''/users/7''"
      and d = "JObj [(''a'', JNum 1)]" and opts = "None"
      and token = handle4 and w' = world9,
      THEN conjunct2, THEN conjunct2, THEN conjunct2, THEN conjunct2,
      THEN conjunct2, THEN conjunct2, THEN conjunct2, THEN conjunct2,
      THEN conjunct2, THEN conjunct2, THEN conjunct1, THEN mp, THEN mp, OF m_patch patch_example])
  have m_del: "''del'' \<in> set (dcFetch_obj component0)"
    by (simp add: component0_def constructor_methods)
  have i_del: "injected_call stringify0 component0 dcFetch0 world1 ''del'' ''/users/7'' JUndefined None
         = (Inr handle4, component0\<lparr>dcFetchTokens := dcFetchTokens component0 @ [handle4]\<rparr>,
            dcFetch0, world5)"
    by (rule hoc_records_and_cancels [where c = component0 and sf = stringify0
      and dcFetch = dcFetch0 and w = world1 and url = "''/users/7''"
      and d = "JUndefined" and opts = "None"
      and token = handle4 and w' = world5,
      THEN conjunct2, THEN conjunct2, THEN conjunct2, THEN conjunct2,
      THEN conjunct2, THEN conjunct2, THEN conjunct2, THEN conjunct2,
      THEN conjunct2, THEN conjunct2, THEN conjunct2, THEN conjunct1,
      THEN mp, THEN mp, OF m_del del_example])
  have m_singleGet: "''singleGet'' \<in> set (dcFetch_obj component0)"
    by (simp add: component0_def constructor_methods)
  have i_singleGet: "injected_call stringify0 component0 dcFetch0 world1 ''singleGet'' ''/users'' (JObj [(''a'', JNum 1)]) None
         = (Inr handle1, component0\<lparr>dcFetchTokens := dcFetchTokens component0 @ [handle1]\<rparr>,
            dcFetch3, world2)"
    by (rule hoc_records_and_cancels [where c = component0 and sf = stringify0
      and dcFetch = dcFetch0 and w = world1 and url = "''/users''"
      and d = "JObj [(''a'', JNum 1)]" and opts = "None"
      and token = handle1 and w' = world2 and dcFetch' = dcFetch3,
      THEN conjunct2, THEN conjunct2, THEN conjunct2, THEN conjunct2,
      THEN conjunct2, THEN conjunct2, THEN conjunct2, THEN conjunct2,
      THEN conjunct2, THEN conjunct2, THEN conjunct2, THEN conjunct2,
      THEN conjunct1, THEN mp, THEN mp, OF m_singleGet singleGet_example])
  have u: "log (componentWillUnmount component1 world2) =
     log world2 @ [Cancel (cancel_target handle1) (JObj [(''canceled'', JBool True)])]"
    using hoc_records_and_cancels [where c = component1 and w = world2,
          THEN conjunct2, THEN conjunct2, THEN conjunct2, THEN conjunct2,
      THEN conjunct2, THEN conjunct2, THEN conjunct2, THEN conjunct2,
      THEN conjunct2, THEN conjunct2, THEN conjunct2, THEN conjunct2,
      THEN conjunct2, THEN conjunct2]
    by (simp add: component1_def component0_def WithSubscription_constructor_def)
  from a r m_get get_example i_get m_post post_example i_post m_put put_example i_put m_patch patch_example i_patch m_del del_example i_del m_singleGet singleGet_example i_singleGet u
  show ?thesis by (intro conjI)
qed

end
